theory Spec2Isabelle
  imports Complex_Main "HOL-Library.Word"
begin

section \<open>Trace context codec (src/src/provider.ts)\<close>

text \<open>
  JavaScript strings are modelled as \<^typ>\<open>string\<close>. \<open>split_on c s\<close> is
  \<^verbatim>\<open>s.split(c)\<close> for a one-character separator: the empty string gives one empty
  field, and every occurrence of the separator starts a new field.
\<close>

fun split_on :: "char \<Rightarrow> string \<Rightarrow> string list" where
  "split_on c [] = [[]]"
| "split_on c (x # xs) =
     (if x = c then [] # split_on c xs
      else (case split_on c xs of
              [] \<Rightarrow> [[x]]
            | p # ps \<Rightarrow> (x # p) # ps))"

text \<open>
  The character class \<^verbatim>\<open>[0-9a-f]\<close> under the flag \<^verbatim>\<open>i\<close>, and the test of
  the regular expression \<^verbatim>\<open>/^[0-9a-f]+$/i\<close>: one or more such characters and
  nothing else.
\<close>

definition is_hex_char :: "char \<Rightarrow> bool" where
  "is_hex_char c \<longleftrightarrow> c \<in> set ''0123456789abcdefABCDEF''"

definition hex_regex_test :: "string \<Rightarrow> bool" where
  "hex_regex_test s \<longleftrightarrow> s \<noteq> [] \<and> list_all is_hex_char s"

record trace_context =
  version :: string
  traceId :: string
  spanId :: string
  flags :: string

text \<open>The span context of the OpenTelemetry API: the identity a span carries.\<close>

record span_context =
  sc_traceId :: string
  sc_spanId :: string
  traceFlags :: nat
  isRemote :: bool

definition parseTraceparent :: "string \<Rightarrow> trace_context option" where
  "parseTraceparent traceparent =
     (case split_on CHR ''-'' traceparent of
        [version', traceId', spanId', flags'] \<Rightarrow>
          if version' \<noteq> ''00'' then None
          else if length traceId' \<noteq> 32 \<or> \<not> hex_regex_test traceId' then None
          else if length spanId' \<noteq> 16 \<or> \<not> hex_regex_test spanId' then None
          else if length flags' \<noteq> 2 \<or> \<not> hex_regex_test flags' then None
          else Some \<lparr>version = version', traceId = traceId', spanId = spanId', flags = flags'\<rparr>
      | _ \<Rightarrow> None)"

definition toTraceparent :: "span_context \<Rightarrow> string" where
  "toTraceparent ctx = ''00-'' @ sc_traceId ctx @ ''-'' @ sc_spanId ctx @ ''-01''"

text \<open>The fields of a wire string joined again by the separator.\<close>

fun join_with :: "char \<Rightarrow> string list \<Rightarrow> string" where
  "join_with c [] = []"
| "join_with c [p] = p"
| "join_with c (p # q # ps) = p @ c # join_with c (q # ps)"

text \<open>A field of exactly \<open>n\<close> hexadecimal digits, in either case.\<close>

definition hex_field :: "nat \<Rightarrow> string \<Rightarrow> bool" where
  "hex_field n s \<longleftrightarrow> length s = n \<and> hex_regex_test s"


section \<open>JavaScript values and objects\<close>

text \<open>
  A number is a finite value, carried as the rational it denotes, or one of the three
  non-finite values. Rounding of arithmetic results is not modelled.
\<close>

datatype js_number = Finite rat | NaN | PosInfinity | NegInfinity

text \<open>
  The values an attribute bag can hold. A \<open>JDate\<close> carries its time value in
  milliseconds, \<open>None\<close> for an invalid date. A \<open>JObject\<close> is any other object,
  given by its class and by its own enumerable string-keyed properties in the order of
  \<^verbatim>\<open>Object.entries\<close>: \<open>Plain\<close> for an object literal, \<open>Instance c\<close> for
  an instance of the class \<open>c\<close> (a \<^verbatim>\<open>Map\<close>, an \<^verbatim>\<open>Error\<close>, an instance of a
  class of the application). \<open>JOther\<close> stands for the values whose
  \<^verbatim>\<open>typeof\<close> is neither of the above: functions, symbols and big integers.
\<close>

datatype object_class = Plain | Instance string

datatype js_value =
    JUndefined
  | JNull
  | JBool bool
  | JNumber js_number
  | JString string
  | JArray "js_value list"
  | JDate "int option"
  | JObject object_class "(string \<times> js_value) list"
  | JOther string

type_synonym js_object = "(string \<times> js_value) list"

text \<open>
  Own property order of an ordinary object: array indices in ascending order first, then
  the other string keys in the order of their creation. \<open>array_index k\<close> is the
  index a key denotes, when it is a canonical numeric string below \<open>2^32 - 1\<close>.
\<close>

definition is_digit :: "char \<Rightarrow> bool" where
  "is_digit c \<longleftrightarrow> c \<in> set ''0123456789''"

definition digit_value :: "char \<Rightarrow> int" where
  "digit_value c = of_char c - of_char CHR ''0''"

definition int_of_digits :: "string \<Rightarrow> int" where
  "int_of_digits ds = foldl (\<lambda>n c. 10 * n + digit_value c) 0 ds"

definition array_index :: "string \<Rightarrow> int option" where
  "array_index k =
     (if k \<noteq> [] \<and> list_all is_digit k \<and> (k = ''0'' \<or> take 1 k \<noteq> ''0'')
         \<and> int_of_digits k < 4294967295
      then Some (int_of_digits k) else None)"

fun insert_index :: "int \<Rightarrow> string \<Rightarrow> 'v \<Rightarrow> (string \<times> 'v) list \<Rightarrow> (string \<times> 'v) list" where
  "insert_index i k v [] = [(k, v)]"
| "insert_index i k v ((k', v') # rest) =
     (case array_index k' of
        Some j \<Rightarrow> if j < i then (k', v') # insert_index i k v rest else (k, v) # (k', v') # rest
      | None \<Rightarrow> (k, v) # (k', v') # rest)"

definition obj_insert :: "string \<Rightarrow> 'v \<Rightarrow> (string \<times> 'v) list \<Rightarrow> (string \<times> 'v) list" where
  "obj_insert k v obj =
     (case array_index k of None \<Rightarrow> obj @ [(k, v)] | Some i \<Rightarrow> insert_index i k v obj)"

text \<open>\<^verbatim>\<open>obj[k] = v\<close>: an existing property keeps its place, a new one is created.\<close>

definition obj_set :: "string \<Rightarrow> 'v \<Rightarrow> (string \<times> 'v) list \<Rightarrow> (string \<times> 'v) list" where
  "obj_set k v obj =
     (if k \<in> fst ` set obj
      then map (\<lambda>(k', v'). if k' = k then (k', v) else (k', v')) obj
      else obj_insert k v obj)"

text \<open>\<^verbatim>\<open>Object.assign(target, source)\<close>, and the copy \<^verbatim>\<open>{...source}\<close>.\<close>

definition obj_assign :: "(string \<times> 'v) list \<Rightarrow> (string \<times> 'v) list \<Rightarrow> (string \<times> 'v) list" where
  "obj_assign target source = fold (\<lambda>(k, v) t. obj_set k v t) source target"

definition obj_copy :: "(string \<times> 'v) list \<Rightarrow> (string \<times> 'v) list" where
  "obj_copy source = obj_assign [] source"

section \<open>Span engine (src/src/provider.ts)\<close>

datatype span_kind = INTERNAL | SERVER | CLIENT | PRODUCER | CONSUMER

datatype span_status_code = UNSET | OK | ERROR

record span_status =
  code :: span_status_code
  message :: "string option"

text \<open>
  \<^verbatim>\<open>TimeInput\<close>: a number of milliseconds, a \<^verbatim>\<open>Date\<close> (by its time value,
  \<open>NaN\<close> when invalid) or an \<^verbatim>\<open>HrTime\<close> pair of seconds and nanoseconds.
\<close>

datatype time_input = TimeNumber js_number | TimeDate js_number | TimeHr rat rat

definition hr_to_ms :: "rat \<Rightarrow> rat \<Rightarrow> js_number" where
  "hr_to_ms secs nanos = Finite (secs * 1000 + nanos / 1000000)"

record span_event =
  ev_name :: string
  timestamp :: js_number
  ev_attributes :: "js_object option"

record link =
  link_context :: span_context
  link_attributes :: "js_object option"

text \<open>The private fields of \<^verbatim>\<open>CloudflareSpan\<close>.\<close>

record span =
  spanContext :: span_context
  parentSpanId :: "string option"
  kind :: span_kind
  name :: string
  startTime :: js_number
  endTime :: "js_number option"
  ended :: bool
  status :: span_status
  attributes :: js_object
  events :: "span_event list"
  links :: "link list"

text \<open>
  What \<^verbatim>\<open>recordException\<close> can be given: a string, an instance of
  \<^verbatim>\<open>Error\<close> (its name, message and stack), or any other value.
\<close>

datatype exception =
    ExcString string
  | ExcError string string "string option"
  | ExcOther js_value

text \<open>
  The state the engine runs in. Spans are objects: the heap maps a reference to the
  span's fields, and the active span processor (a \<^verbatim>\<open>SimpleSpanProcessor\<close>, or
  null) holds references. \<open>clock\<close> is what \<^verbatim>\<open>Date.now()\<close> returns;
  \<open>entropy\<close> is the stream \<^verbatim>\<open>crypto.getRandomValues\<close> draws from, of which
  \<open>drawn\<close> bytes have been used.
\<close>

record world =
  heap :: "nat \<rightharpoonup> span"
  next_ref :: nat
  activeSpanProcessor :: "nat list option"
  clock :: int
  entropy :: "nat \<Rightarrow> 8 word"
  drawn :: nat

definition Date_now :: "world \<Rightarrow> js_number" where
  "Date_now w = Finite (of_int (clock w))"

subsection \<open>Identifiers\<close>

definition hex_digit :: "nat \<Rightarrow> char" where
  "hex_digit n = ''0123456789abcdef'' ! (n mod 16)"

fun toString16 :: "nat \<Rightarrow> string" where
  "toString16 n = (if n < 16 then [hex_digit n] else toString16 (n div 16) @ [hex_digit n])"

definition padStart :: "nat \<Rightarrow> char \<Rightarrow> string \<Rightarrow> string" where
  "padStart n c s = replicate (n - length s) c @ s"

definition byte_hex :: "8 word \<Rightarrow> string" where
  "byte_hex b = padStart 2 CHR ''0'' (toString16 (unat b))"

definition getRandomValues :: "nat \<Rightarrow> world \<Rightarrow> 8 word list \<times> world" where
  "getRandomValues n w = (map (entropy w) [drawn w ..< drawn w + n], w\<lparr>drawn := drawn w + n\<rparr>)"

definition generateTraceId :: "world \<Rightarrow> string \<times> world" where
  "generateTraceId w = (let (bytes, w') = getRandomValues 16 w in (concat (map byte_hex bytes), w'))"

definition generateSpanId :: "world \<Rightarrow> string \<times> world" where
  "generateSpanId w = (let (bytes, w') = getRandomValues 8 w in (concat (map byte_hex bytes), w'))"

subsection \<open>The span object\<close>

definition timeInputToMs :: "time_input option \<Rightarrow> js_number option" where
  "timeInputToMs time =
     (case time of
        None \<Rightarrow> None
      | Some (TimeNumber n) \<Rightarrow> Some n
      | Some (TimeDate t) \<Rightarrow> Some t
      | Some (TimeHr secs nanos) \<Rightarrow> Some (hr_to_ms secs nanos))"

text \<open>The constructor: the new object gets the next free reference.\<close>

definition new_CloudflareSpan ::
  "string \<Rightarrow> span_context \<Rightarrow> span_kind \<Rightarrow> string option \<Rightarrow> time_input option \<Rightarrow>
   js_object option \<Rightarrow> link list option \<Rightarrow> world \<Rightarrow> nat \<times> world" where
  "new_CloudflareSpan name' spanContext' kind' parentSpanId' startTime' attributes' links' w =
     (let s = \<lparr>spanContext = spanContext',
                parentSpanId = parentSpanId',
                kind = kind',
                name = name',
                startTime = (case timeInputToMs startTime' of Some t \<Rightarrow> t | None \<Rightarrow> Date_now w),
                endTime = None,
                ended = False,
                status = \<lparr>code = UNSET, message = None\<rparr>,
                attributes = (case attributes' of Some a \<Rightarrow> obj_copy a | None \<Rightarrow> []),
                events = [],
                links = (case links' of Some l \<Rightarrow> l | None \<Rightarrow> [])\<rparr>
      in (next_ref w, w\<lparr>heap := (heap w)(next_ref w \<mapsto> s), next_ref := Suc (next_ref w)\<rparr>))"

text \<open>
  The mutators. Each returns at once on an ended span. Those that neither read the clock
  nor notify the processor are functions of the span's fields alone.
\<close>

definition setAttribute :: "string \<Rightarrow> js_value \<Rightarrow> span \<Rightarrow> span" where
  "setAttribute key value s =
     (if ended s then s else s\<lparr>attributes := obj_set key value (attributes s)\<rparr>)"

definition setAttributes :: "js_object \<Rightarrow> span \<Rightarrow> span" where
  "setAttributes attrs s =
     (if ended s then s else s\<lparr>attributes := obj_assign (attributes s) attrs\<rparr>)"

text \<open>The second argument of \<^verbatim>\<open>addEvent\<close> is an attribute bag or a time.\<close>

datatype attrs_or_time = GivenAttributes js_object | GivenTime time_input

definition addEvent ::
  "string \<Rightarrow> attrs_or_time option \<Rightarrow> time_input option \<Rightarrow> js_number \<Rightarrow> span \<Rightarrow> span" where
  "addEvent name' attributesOrStartTime startTime' now s =
     (if ended s then s
      else
        (let (timestamp', attributes') =
           (case attributesOrStartTime of
              Some (GivenTime (TimeNumber n)) \<Rightarrow> (n, None)
            | Some (GivenTime (TimeDate t)) \<Rightarrow> (t, None)
            | Some (GivenTime (TimeHr secs nanos)) \<Rightarrow> (hr_to_ms secs nanos, None)
            | other \<Rightarrow>
                (let attrs = (case other of Some (GivenAttributes a) \<Rightarrow> Some a | _ \<Rightarrow> None) in
                 (case startTime' of
                    Some (TimeNumber n) \<Rightarrow> (n, attrs)
                  | Some (TimeDate t) \<Rightarrow> (t, attrs)
                  | Some (TimeHr secs nanos) \<Rightarrow> (hr_to_ms secs nanos, attrs)
                  | None \<Rightarrow> (now, attrs))))
         in s\<lparr>events := events s @
                 [\<lparr>ev_name = name', timestamp = timestamp', ev_attributes = attributes'\<rparr>]\<rparr>))"

definition addLink :: "link \<Rightarrow> span \<Rightarrow> span" where
  "addLink l s = (if ended s then s else s\<lparr>links := links s @ [l]\<rparr>)"

definition addLinks :: "link list \<Rightarrow> span \<Rightarrow> span" where
  "addLinks ls s = (if ended s then s else s\<lparr>links := links s @ ls\<rparr>)"

definition setStatus :: "span_status \<Rightarrow> span \<Rightarrow> span" where
  "setStatus st s = (if ended s then s else s\<lparr>status := st\<rparr>)"

definition updateName :: "string \<Rightarrow> span \<Rightarrow> span" where
  "updateName name' s = (if ended s then s else s\<lparr>name := name'\<rparr>)"

definition isRecording :: "span \<Rightarrow> bool" where
  "isRecording s \<longleftrightarrow> \<not> ended s"

definition exception_attributes :: "exception \<Rightarrow> js_object" where
  "exception_attributes exc =
     (case exc of
        ExcString msg \<Rightarrow> obj_set ''exception.message'' (JString msg) []
      | ExcError nm msg stack \<Rightarrow>
          (let a1 = obj_set ''exception.type'' (JString nm) [];
               a2 = obj_set ''exception.message'' (JString msg) a1
           in (case stack of
                 Some st \<Rightarrow> if st \<noteq> [] then obj_set ''exception.stacktrace'' (JString st) a2 else a2
               | None \<Rightarrow> a2))
      | ExcOther v \<Rightarrow> [])"

definition recordException :: "exception \<Rightarrow> time_input option \<Rightarrow> js_number \<Rightarrow> span \<Rightarrow> span" where
  "recordException exc time now s =
     (if ended s then s
      else addEvent ''exception'' (Some (GivenAttributes (exception_attributes exc))) time now s)"

text \<open>
  \<^verbatim>\<open>end\<close>: the first call sets the flag and the end time and hands the span to the
  active processor, whose \<^verbatim>\<open>onEnd\<close> appends it; an \<^verbatim>\<open>HrTime\<close> argument is
  not read, the clock is used instead.
\<close>

definition span_end_fields :: "time_input option \<Rightarrow> js_number \<Rightarrow> span \<Rightarrow> span" where
  "span_end_fields endTime' now s =
     s\<lparr>ended := True,
       endTime := Some (case endTime' of
                          Some (TimeNumber n) \<Rightarrow> n
                        | Some (TimeDate t) \<Rightarrow> t
                        | _ \<Rightarrow> now)\<rparr>"

definition onEnd :: "nat \<Rightarrow> nat list \<Rightarrow> nat list" where
  "onEnd r spans = spans @ [r]"

definition span_end :: "nat \<Rightarrow> time_input option \<Rightarrow> world \<Rightarrow> world" where
  "span_end r endTime' w =
     (case heap w r of
        None \<Rightarrow> w
      | Some s \<Rightarrow>
          if ended s then w
          else w\<lparr>heap := (heap w)(r \<mapsto> span_end_fields endTime' (Date_now w) s),
                 activeSpanProcessor := map_option (onEnd r) (activeSpanProcessor w)\<rparr>)"

text \<open>A call of a method on the span object behind a reference.\<close>

datatype span_op =
    SetAttribute string js_value
  | SetAttributes js_object
  | AddEvent string "attrs_or_time option" "time_input option"
  | AddLink link
  | AddLinks "link list"
  | SetStatus span_status
  | UpdateName string
  | RecordException exception "time_input option"
  | End "time_input option"

definition on_span :: "nat \<Rightarrow> (span \<Rightarrow> span) \<Rightarrow> world \<Rightarrow> world" where
  "on_span r f w = (case heap w r of None \<Rightarrow> w | Some s \<Rightarrow> w\<lparr>heap := (heap w)(r \<mapsto> f s)\<rparr>)"

fun span_call :: "nat \<Rightarrow> span_op \<Rightarrow> world \<Rightarrow> world" where
  "span_call r (SetAttribute k v) w = on_span r (setAttribute k v) w"
| "span_call r (SetAttributes a) w = on_span r (setAttributes a) w"
| "span_call r (AddEvent n a t) w = on_span r (addEvent n a t (Date_now w)) w"
| "span_call r (AddLink l) w = on_span r (addLink l) w"
| "span_call r (AddLinks ls) w = on_span r (addLinks ls) w"
| "span_call r (SetStatus st) w = on_span r (setStatus st) w"
| "span_call r (UpdateName n) w = on_span r (updateName n) w"
| "span_call r (RecordException e t) w = on_span r (recordException e t (Date_now w)) w"
| "span_call r (End t) w = span_end r t w"

text \<open>The mutators of the claim, that is every operation but \<^verbatim>\<open>end\<close>.\<close>

fun is_mutator :: "span_op \<Rightarrow> bool" where
  "is_mutator (End t) = False"
| "is_mutator op = True"


subsection \<open>Contexts and the tracer\<close>

text \<open>
  A context of the OpenTelemetry API either holds a span or holds none
  (\<^verbatim>\<open>ROOT_CONTEXT\<close>). The span it holds is a \<^verbatim>\<open>CloudflareSpan\<close>, by
  reference, or the API's non-recording wrapper of a span context
  (\<^verbatim>\<open>trace.wrapSpanContext\<close>). The context manager keeps the active context in
  extent-scoped storage; the model passes it as the argument \<open>ambient\<close>, so that a
  caller's own active context is untouched by what a callee runs.
\<close>

datatype active_span = Recording nat | NonRecording span_context

type_synonym otel_context = "active_span option"

definition ROOT_CONTEXT :: otel_context where
  "ROOT_CONTEXT = None"

definition getSpan :: "otel_context \<Rightarrow> active_span option" where
  "getSpan ctx = ctx"

definition setSpan :: "otel_context \<Rightarrow> active_span \<Rightarrow> otel_context" where
  "setSpan ctx sp = Some sp"

definition wrapSpanContext :: "span_context \<Rightarrow> active_span" where
  "wrapSpanContext sc = NonRecording sc"

text \<open>\<^verbatim>\<open>span.spanContext()\<close> of the span a context holds.\<close>

definition spanContext_of :: "world \<Rightarrow> active_span \<Rightarrow> span_context option" where
  "spanContext_of w sp =
     (case sp of
        Recording r \<Rightarrow> map_option spanContext (heap w r)
      | NonRecording sc \<Rightarrow> Some sc)"

record span_options =
  opt_kind :: "span_kind option"
  opt_attributes :: "js_object option"
  opt_links :: "link list option"
  opt_startTime :: "time_input option"

definition SAMPLED :: nat where
  "SAMPLED = 1"

text \<open>
  \<^verbatim>\<open>ctx ?? context.active()\<close>, and \<^verbatim>\<open>trace.getSpan(c)?.spanContext()\<close>.
\<close>

definition effective_context :: "otel_context option \<Rightarrow> otel_context \<Rightarrow> otel_context" where
  "effective_context ctx ambient = (case ctx of Some c \<Rightarrow> c | None \<Rightarrow> ambient)"

definition parent_span_context :: "world \<Rightarrow> otel_context \<Rightarrow> span_context option" where
  "parent_span_context w c = (case getSpan c of None \<Rightarrow> None | Some sp \<Rightarrow> spanContext_of w sp)"

definition startSpan ::
  "string \<Rightarrow> span_options option \<Rightarrow> otel_context option \<Rightarrow> otel_context \<Rightarrow> world \<Rightarrow> nat \<times> world" where
  "startSpan name' options ctx ambient w =
     (let parentContext = effective_context ctx ambient;
          parentSpanContext = parent_span_context w parentContext;
          (traceId', w1) =
            (case parentSpanContext of
               Some psc \<Rightarrow> (sc_traceId psc, w)
             | None \<Rightarrow> generateTraceId w);
          (spanId', w2) = generateSpanId w1;
          parentSpanId' = map_option sc_spanId parentSpanContext;
          spanContext' =
            \<lparr>sc_traceId = traceId', sc_spanId = spanId', traceFlags = SAMPLED, isRemote = False\<rparr>;
          kind' = (case Option.bind options opt_kind of Some k \<Rightarrow> k | None \<Rightarrow> INTERNAL)
      in new_CloudflareSpan name' spanContext' kind' parentSpanId'
           (Option.bind options opt_startTime)
           (Option.bind options opt_attributes)
           (Option.bind options opt_links) w2)"

text \<open>
  How a callback settles: it returns a value that is not a \<^verbatim>\<open>Promise\<close>, it
  throws, or it returns a promise that resolves or rejects. A callback is given the span
  and the context it runs in, and yields how it settles together with the state at that
  moment.
\<close>

datatype 'a settle = Returns 'a | Throws exception | Resolves 'a | Rejects exception

type_synonym 'a callback = "nat \<Rightarrow> otel_context \<Rightarrow> world \<Rightarrow> 'a settle \<times> world"

definition ERROR_status :: span_status where
  "ERROR_status = \<lparr>code = ERROR, message = None\<rparr>"

definition startActiveSpan ::
  "string \<Rightarrow> span_options option \<Rightarrow> otel_context option \<Rightarrow> 'a callback \<Rightarrow> otel_context \<Rightarrow>
   world \<Rightarrow> 'a settle \<times> world" where
  "startActiveSpan name' options ctx fn ambient w =
     (let parentContext = effective_context ctx ambient;
          (sp, w1) = startSpan name' options (Some parentContext) ambient w;
          newContext = setSpan parentContext (Recording sp)
      in (case fn sp newContext w1 of
            (Returns v, w2) \<Rightarrow> (Returns v, span_end sp None w2)
          | (Resolves v, w2) \<Rightarrow> (Resolves v, span_end sp None w2)
          | (Rejects e, w2) \<Rightarrow>
              (Rejects e,
               span_end sp None
                 (on_span sp (setStatus ERROR_status)
                   (on_span sp (recordException e None (Date_now w2)) w2)))
          | (Throws e, w2) \<Rightarrow>
              (Throws e,
               span_end sp None
                 (on_span sp (setStatus ERROR_status)
                   (on_span sp (recordException e None (Date_now w2)) w2)))))"

subsection \<open>Callbacks that use the span\<close>





section \<open>withTrace (src/src/trace.ts)\<close>




text \<open>
  \<^verbatim>\<open>parseInt(s, 16)\<close> on a string of hexadecimal digits, which is all
  \<^verbatim>\<open>toSpanContext\<close> is applied to.
\<close>

definition hex_char_value :: "char \<Rightarrow> nat" where
  "hex_char_value c =
     (if is_digit c then of_char c - of_char CHR ''0''
      else if c \<in> set ''abcdef'' then of_char c - of_char CHR ''a'' + 10
      else of_char c - of_char CHR ''A'' + 10)"

definition parseInt16 :: "string \<Rightarrow> nat" where
  "parseInt16 s = foldl (\<lambda>n c. 16 * n + hex_char_value c) 0 s"

definition toSpanContext :: "trace_context \<Rightarrow> span_context" where
  "toSpanContext ctx =
     \<lparr>sc_traceId = traceId ctx, sc_spanId = spanId ctx, traceFlags = parseInt16 (flags ctx),
      isRemote = True\<rparr>"

definition spanContextFromTraceparent :: "string \<Rightarrow> span_context option" where
  "spanContextFromTraceparent traceparent =
     (case parseTraceparent traceparent of
        None \<Rightarrow> None
      | Some parsed \<Rightarrow> Some (toSpanContext parsed))"






section \<open>Notions used in the statements\<close>







text \<open>
  A state to run examples in: no span yet, an empty processor registered, a clock and a
  source of random bytes.
\<close>

definition world0 :: world where
  "world0 = \<lparr>heap = Map.empty, next_ref = 0, activeSpanProcessor = Some [],
             clock = 1700000000000, entropy = (\<lambda>n. 171), drawn = 0\<rparr>"

section \<open>TracedError (src/src/error.ts)\<close>

text \<open>
  The prototypes that matter to the check, each with the prototype it inherits from:
  \<^verbatim>\<open>TracedError.prototype\<close> inherits from \<^verbatim>\<open>Error.prototype\<close>, and a
  class prototype names its parent.
\<close>

datatype proto_id =
    Object_prototype
  | Error_prototype
  | TracedError_prototype
  | Class_prototype string proto_id

fun proto_chain :: "proto_id \<Rightarrow> proto_id list" where
  "proto_chain Object_prototype = [Object_prototype]"
| "proto_chain Error_prototype = [Error_prototype, Object_prototype]"
| "proto_chain TracedError_prototype = [TracedError_prototype, Error_prototype, Object_prototype]"
| "proto_chain (Class_prototype n parent) = Class_prototype n parent # proto_chain parent"

text \<open>
  A value is an object, by reference, or anything else (a primitive, null or undefined).
  Of an object the check reads whether it is callable (then \<^verbatim>\<open>typeof\<close> is not
  \<open>object\<close>), its prototype and its \<^verbatim>\<open>cause\<close> property. Objects can refer
  to each other in a cycle, so the heap is a function from references.
\<close>

datatype thrown = NotAnObject | ObjectRef nat

record js_instance =
  callable :: bool
  prototype :: "proto_id option"
  cause :: thrown

type_synonym object_heap = "nat \<Rightarrow> js_instance"

definition instanceof_Error :: "object_heap \<Rightarrow> thrown \<Rightarrow> bool" where
  "instanceof_Error h v =
     (case v of
        NotAnObject \<Rightarrow> False
      | ObjectRef r \<Rightarrow>
          (case prototype (h r) of
             None \<Rightarrow> False
           | Some p \<Rightarrow> Error_prototype \<in> set (proto_chain p)))"

definition getPrototypeOf :: "object_heap \<Rightarrow> thrown \<Rightarrow> proto_id option" where
  "getPrototypeOf h v = (case v of NotAnObject \<Rightarrow> None | ObjectRef r \<Rightarrow> prototype (h r))"

definition cause_of :: "object_heap \<Rightarrow> thrown \<Rightarrow> thrown" where
  "cause_of h v = (case v of NotAnObject \<Rightarrow> NotAnObject | ObjectRef r \<Rightarrow> cause (h r))"

text \<open>
  The loop of \<^verbatim>\<open>TracedError[Symbol.hasInstance]\<close>. On a cyclic chain of causes it
  need not return, so its result is an option: \<open>None\<close> when it does not.
\<close>

partial_function (option) cause_walk :: "object_heap \<Rightarrow> thrown \<Rightarrow> bool option" where
  "cause_walk h current =
     (if instanceof_Error h current
      then (if getPrototypeOf h current = Some TracedError_prototype then Some True
            else cause_walk h (cause_of h current))
      else Some False)"

definition typeof_object :: "object_heap \<Rightarrow> thrown \<Rightarrow> bool" where
  "typeof_object h v = (case v of NotAnObject \<Rightarrow> False | ObjectRef r \<Rightarrow> \<not> callable (h r))"

definition hasInstance :: "object_heap \<Rightarrow> thrown \<Rightarrow> bool option" where
  "hasInstance h instance' =
     (if \<not> typeof_object h instance' then Some False else cause_walk h instance')"

text \<open>
  The chain \<open>e\<close>, \<open>e.cause\<close>, \<open>e.cause.cause\<close>, ...; that its \<open>n\<close>-th element
  has \<^verbatim>\<open>TracedError.prototype\<close> as its direct prototype and all elements before
  are instances of \<^verbatim>\<open>Error\<close>; and that its \<open>n\<close>-th element is the first that
  is not an instance of \<^verbatim>\<open>Error\<close>, none before having that direct prototype.
\<close>

fun cause_chain :: "object_heap \<Rightarrow> thrown \<Rightarrow> nat \<Rightarrow> thrown" where
  "cause_chain h v 0 = v"
| "cause_chain h v (Suc n) = cause_chain h (cause_of h v) n"

definition stops_at_non_Error :: "object_heap \<Rightarrow> thrown \<Rightarrow> nat \<Rightarrow> bool" where
  "stops_at_non_Error h v n \<longleftrightarrow>
     \<not> instanceof_Error h (cause_chain h v n) \<and>
     (\<forall>i<n. instanceof_Error h (cause_chain h v i) \<and>
            getPrototypeOf h (cause_chain h v i) \<noteq> Some TracedError_prototype)"

text \<open>
  An example: object 0 is a plain \<^verbatim>\<open>Error\<close> whose cause is object 1, a
  \<^verbatim>\<open>TracedError\<close>; every other object is a plain \<^verbatim>\<open>Error\<close> that is its
  own cause.
\<close>

definition example_heap :: object_heap where
  "example_heap =
     (\<lambda>r. if r = 0
          then \<lparr>callable = False, prototype = Some Error_prototype, cause = ObjectRef 1\<rparr>
          else if r = 1
          then \<lparr>callable = False, prototype = Some TracedError_prototype, cause = NotAnObject\<rparr>
          else \<lparr>callable = False, prototype = Some Error_prototype, cause = ObjectRef r\<rparr>)"

definition reaches_TracedError :: "object_heap \<Rightarrow> thrown \<Rightarrow> nat \<Rightarrow> bool" where
  "reaches_TracedError h v n \<longleftrightarrow>
     getPrototypeOf h (cause_chain h v n) = Some TracedError_prototype \<and>
     (\<forall>i<n. instanceof_Error h (cause_chain h v i))"

section \<open>Exporter (src/unnamed/part_000)\<close>

text \<open>
  What a built-in of the runtime raises: a \<^verbatim>\<open>RangeError\<close>, a \<^verbatim>\<open>TypeError\<close>,
  or a value raised by code of the application.
\<close>

datatype js_error = RangeError | TypeError | Raised exception

text \<open>
  The built-ins of the runtime that produce text. Their results are not computed here; the
  functions of the exporter take them as a parameter. \<^verbatim>\<open>JSON.stringify\<close> raises on a
  cyclic structure and on a big integer, \<^verbatim>\<open>toISOString\<close> is given the time value of a
  valid date.
\<close>

record runtime =
  number_toString :: "js_number \<Rightarrow> string"
  JSON_stringify :: "js_value \<Rightarrow> js_error + string"
  toISOString :: "int \<Rightarrow> string"
  String_of :: "js_value \<Rightarrow> string"

datatype otlp_any_value =
    StringValue string
  | IntValue string
  | DoubleValue js_number
  | BoolValue bool

type_synonym otlp_key_value = "string \<times> otlp_any_value"

text \<open>\<^verbatim>\<open>prefix ? `${prefix}.${key}` : key\<close>\<close>

definition join_key :: "string \<Rightarrow> string \<Rightarrow> string" where
  "join_key prefix key = (if prefix \<noteq> [] then prefix @ ''.'' @ key else key)"

text \<open>
  \<^verbatim>\<open>flattenAttributes\<close>: \<open>flatten_entries\<close> is its loop over the entries of the
  object, with the object under construction as accumulator. Every value that is an object,
  but neither an array nor a date, is flattened by its own entries, whatever its class.
\<close>

function flatten_entries :: "string \<Rightarrow> js_object \<Rightarrow> js_object \<Rightarrow> js_object" where
  "flatten_entries prefix [] result = result"
| "flatten_entries prefix ((key, value) # rest) result =
     flatten_entries prefix rest
       (case value of
          JObject c inner \<Rightarrow> obj_assign result (flatten_entries (join_key prefix key) inner [])
        | _ \<Rightarrow> obj_set (join_key prefix key) value result)"
  by pat_completeness auto
termination
  by (relation "measure (\<lambda>(prefix, entries, result). size_list (size_prod (\<lambda>_. 0) size) entries)")
    auto

definition flattenAttributes :: "js_object \<Rightarrow> string \<Rightarrow> js_object" where
  "flattenAttributes obj prefix = flatten_entries prefix obj []"

text \<open>\<^verbatim>\<open>Number.isInteger\<close>\<close>

definition isInteger :: "js_number \<Rightarrow> bool" where
  "isInteger n = (case n of Finite q \<Rightarrow> of_int \<lfloor>q\<rfloor> = q | _ \<Rightarrow> False)"

definition toOTLPValue :: "runtime \<Rightarrow> js_value \<Rightarrow> js_error + otlp_any_value" where
  "toOTLPValue rt value =
     (case value of
        JNull \<Rightarrow> Inr (StringValue '''')
      | JUndefined \<Rightarrow> Inr (StringValue '''')
      | JString s \<Rightarrow> Inr (StringValue s)
      | JNumber n \<Rightarrow>
          if isInteger n then Inr (IntValue (number_toString rt n)) else Inr (DoubleValue n)
      | JBool b \<Rightarrow> Inr (BoolValue b)
      | JArray xs \<Rightarrow> map_sum id StringValue (JSON_stringify rt (JArray xs))
      | JDate None \<Rightarrow> Inl RangeError
      | JDate (Some t) \<Rightarrow> Inr (StringValue (toISOString rt t))
      | JObject c props \<Rightarrow> map_sum id StringValue (JSON_stringify rt (JObject c props))
      | JOther d \<Rightarrow> Inr (StringValue (String_of rt (JOther d))))"

text \<open>
  \<^verbatim>\<open>attributesToOTLP\<close>: the entries of the flattened object are encoded in order, and
  the first value that raises aborts the whole encoding.
\<close>

fun encode_entries :: "runtime \<Rightarrow> js_object \<Rightarrow> js_error + otlp_key_value list" where
  "encode_entries rt [] = Inr []"
| "encode_entries rt ((key, value) # rest) =
     (case toOTLPValue rt value of
        Inl e \<Rightarrow> Inl e
      | Inr v \<Rightarrow>
          (case encode_entries rt rest of
             Inl e \<Rightarrow> Inl e
           | Inr kvs \<Rightarrow> Inr ((key, v) # kvs)))"

definition attributesToOTLP :: "runtime \<Rightarrow> js_object \<Rightarrow> js_error + otlp_key_value list" where
  "attributesToOTLP rt attrs = encode_entries rt (flattenAttributes attrs '''')"



subsection \<open>Timestamps and enumerations\<close>

text \<open>The decimal text of a big integer, \<^verbatim>\<open>BigInt.prototype.toString\<close>.\<close>

definition digit_char :: "nat \<Rightarrow> char" where
  "digit_char n = ''0123456789'' ! (n mod 10)"

fun show_nat :: "nat \<Rightarrow> string" where
  "show_nat n = (if n < 10 then [digit_char n] else show_nat (n div 10) @ [digit_char n])"

definition show_int :: "int \<Rightarrow> string" where
  "show_int i = (if i < 0 then ''-'' @ show_nat (nat (- i)) else show_nat (nat i))"

text \<open>
  \<^verbatim>\<open>BigInt(Math.floor(ms))\<close> raises a \<^verbatim>\<open>RangeError\<close> when \<open>ms\<close> is not finite:
  \<^verbatim>\<open>Math.floor\<close> leaves \<open>NaN\<close> and the infinities as they are, and
  \<^verbatim>\<open>BigInt\<close> accepts integral numbers only.
\<close>

definition BigInt_floor :: "js_number \<Rightarrow> js_error + int" where
  "BigInt_floor ms = (case ms of Finite q \<Rightarrow> Inr \<lfloor>q\<rfloor> | _ \<Rightarrow> Inl RangeError)"

definition msToNanoString :: "js_number \<Rightarrow> js_error + string" where
  "msToNanoString ms =
     (case BigInt_floor ms of
        Inl e \<Rightarrow> Inl e
      | Inr n \<Rightarrow> Inr (show_int (n * 1000000)))"

definition msToNanoStringWithOffset :: "js_number \<Rightarrow> nat \<Rightarrow> js_error + string" where
  "msToNanoStringWithOffset ms offsetMicros =
     (case BigInt_floor ms of
        Inl e \<Rightarrow> Inl e
      | Inr n \<Rightarrow> Inr (show_int (n * 1000000 + int offsetMicros * 1000)))"

definition spanKindToOTLP :: "span_kind \<Rightarrow> nat" where
  "spanKindToOTLP k =
     (case k of INTERNAL \<Rightarrow> 1 | SERVER \<Rightarrow> 2 | CLIENT \<Rightarrow> 3 | PRODUCER \<Rightarrow> 4 | CONSUMER \<Rightarrow> 5)"

definition statusCodeToOTLP :: "span_status_code \<Rightarrow> nat" where
  "statusCodeToOTLP c = (case c of OK \<Rightarrow> 1 | ERROR \<Rightarrow> 2 | UNSET \<Rightarrow> 0)"

datatype log_level = Trace | Debug | Info | Warn | Error | Fatal

definition logLevelToSeverity :: "log_level \<Rightarrow> nat" where
  "logLevelToSeverity l =
     (case l of Trace \<Rightarrow> 1 | Debug \<Rightarrow> 5 | Info \<Rightarrow> 9 | Warn \<Rightarrow> 13 | Error \<Rightarrow> 17 | Fatal \<Rightarrow> 21)"

text \<open>\<^verbatim>\<open>level.toUpperCase()\<close>\<close>

definition severityText :: "log_level \<Rightarrow> string" where
  "severityText l =
     (case l of Trace \<Rightarrow> ''TRACE'' | Debug \<Rightarrow> ''DEBUG'' | Info \<Rightarrow> ''INFO'' | Warn \<Rightarrow> ''WARN''
      | Error \<Rightarrow> ''ERROR'' | Fatal \<Rightarrow> ''FATAL'')"

subsection \<open>Conversion of spans and log entries\<close>

text \<open>
  A step that raises ends the conversion it belongs to: \<open>and_then\<close> sequences two steps,
  \<open>map_try\<close> is \<^verbatim>\<open>Array.prototype.map\<close> with a callback that may raise.
\<close>

definition and_then :: "'e + 'a \<Rightarrow> ('a \<Rightarrow> 'e + 'b) \<Rightarrow> 'e + 'b" where
  "and_then r f = (case r of Inl e \<Rightarrow> Inl e | Inr v \<Rightarrow> f v)"

fun map_try :: "('a \<Rightarrow> 'e + 'b) \<Rightarrow> 'a list \<Rightarrow> 'e + 'b list" where
  "map_try f [] = Inr []"
| "map_try f (x # xs) = and_then (f x) (\<lambda>y. and_then (map_try f xs) (\<lambda>ys. Inr (y # ys)))"

record otlp_event =
  oe_timeUnixNano :: string
  oe_name :: string
  oe_attributes :: "otlp_key_value list"
  oe_droppedAttributesCount :: nat

record otlp_link =
  ol_traceId :: string
  ol_spanId :: string
  ol_attributes :: "otlp_key_value list"
  ol_droppedAttributesCount :: nat

record otlp_status =
  os_code :: nat
  os_message :: "string option"

record otlp_span =
  o_traceId :: string
  o_spanId :: string
  o_parentSpanId :: "string option"
  o_name :: string
  o_kind :: nat
  o_startTimeUnixNano :: string
  o_endTimeUnixNano :: string
  o_attributes :: "otlp_key_value list"
  o_droppedAttributesCount :: nat
  o_events :: "otlp_event list"
  o_droppedEventsCount :: nat
  o_links :: "otlp_link list"
  o_droppedLinksCount :: nat
  o_status :: otlp_status

record otlp_log_record =
  lr_timeUnixNano :: string
  lr_severityNumber :: nat
  lr_severityText :: string
  lr_body :: otlp_any_value
  lr_attributes :: "otlp_key_value list"
  lr_droppedAttributesCount :: nat
  lr_traceId :: "string option"
  lr_spanId :: "string option"

text \<open>
  \<^verbatim>\<open>ExportTraceServiceRequest\<close> and \<^verbatim>\<open>ExportLogsServiceRequest\<close>: both hold one
  resource with one scope, whose records are the spans or the log records.
\<close>

record 'r export_request =
  resource_attributes :: "otlp_key_value list"
  scope_name :: string
  scope_version :: string
  scope_records :: "'r list"

definition eventToOTLP :: "runtime \<Rightarrow> span_event \<Rightarrow> js_error + otlp_event" where
  "eventToOTLP rt e =
     and_then (msToNanoString (timestamp e)) (\<lambda>time.
     and_then (attributesToOTLP rt (case ev_attributes e of Some a \<Rightarrow> a | None \<Rightarrow> [])) (\<lambda>attrs.
     Inr \<lparr>oe_timeUnixNano = time, oe_name = ev_name e, oe_attributes = attrs,
          oe_droppedAttributesCount = 0\<rparr>))"

definition linkToOTLP :: "runtime \<Rightarrow> link \<Rightarrow> js_error + otlp_link" where
  "linkToOTLP rt l =
     and_then (attributesToOTLP rt (case link_attributes l of Some a \<Rightarrow> a | None \<Rightarrow> [])) (\<lambda>attrs.
     Inr \<lparr>ol_traceId = sc_traceId (link_context l), ol_spanId = sc_spanId (link_context l),
          ol_attributes = attrs, ol_droppedAttributesCount = 0\<rparr>)"

text \<open>
  \<^verbatim>\<open>spanToOTLP\<close>; \<open>now\<close> is what \<^verbatim>\<open>Date.now()\<close> returns. The properties of the
  object literal are evaluated in the order they are written in.
\<close>

definition spanToOTLP :: "runtime \<Rightarrow> js_number \<Rightarrow> span \<Rightarrow> js_error + otlp_span" where
  "spanToOTLP rt now sp =
     and_then (msToNanoString (startTime sp)) (\<lambda>start.
     and_then (msToNanoString (case endTime sp of Some t \<Rightarrow> t | None \<Rightarrow> now)) (\<lambda>finish.
     and_then (attributesToOTLP rt (attributes sp)) (\<lambda>attrs.
     and_then (map_try (eventToOTLP rt) (events sp)) (\<lambda>evs.
     and_then (map_try (linkToOTLP rt) (links sp)) (\<lambda>lks.
     Inr \<lparr>o_traceId = sc_traceId (spanContext sp), o_spanId = sc_spanId (spanContext sp),
          o_parentSpanId = parentSpanId sp, o_name = name sp, o_kind = spanKindToOTLP (kind sp),
          o_startTimeUnixNano = start, o_endTimeUnixNano = finish, o_attributes = attrs,
          o_droppedAttributesCount = 0, o_events = evs, o_droppedEventsCount = 0,
          o_links = lks, o_droppedLinksCount = 0,
          o_status = \<lparr>os_code = statusCodeToOTLP (code (status sp)),
                      os_message = message (status sp)\<rparr>\<rparr>)))))"

definition resourceToOTLP :: "string \<Rightarrow> (string \<times> string) list option \<Rightarrow> otlp_key_value list" where
  "resourceToOTLP serviceName resourceAttributes =
     (''service.name'', StringValue serviceName) #
     (case resourceAttributes of
        Some ra \<Rightarrow> map (\<lambda>(key, value). (key, StringValue value)) ra
      | None \<Rightarrow> [])"

definition buildTraceExportRequest ::
  "runtime \<Rightarrow> js_number \<Rightarrow> span list \<Rightarrow> string \<Rightarrow> (string \<times> string) list option \<Rightarrow> string \<Rightarrow>
   js_error + otlp_span export_request" where
  "buildTraceExportRequest rt now spans serviceName resourceAttributes version' =
     (let attrs = resourceToOTLP serviceName resourceAttributes
      in and_then (map_try (spanToOTLP rt now) spans) (\<lambda>converted.
         Inr \<lparr>resource_attributes = attrs, scope_name = ''otel-cloudflare'',
              scope_version = version', scope_records = converted\<rparr>))"

text \<open>
  What the exporter reads of the caller information of a log entry: the file, the
  function name given to the constructor, the line, and the name the getter
  \<^verbatim>\<open>function\<close> resolves through the chain of parents.
\<close>

record entry_caller =
  ec_file :: "string option"
  ec_own_function :: "string option"
  ec_line :: "nat option"
  ec_function :: string

definition truthy_string :: "string option \<Rightarrow> bool" where
  "truthy_string s \<longleftrightarrow> (case s of Some t \<Rightarrow> t \<noteq> [] | None \<Rightarrow> False)"

definition truthy_number :: "nat option \<Rightarrow> bool" where
  "truthy_number n \<longleftrightarrow> (case n of Some k \<Rightarrow> k \<noteq> 0 | None \<Rightarrow> False)"

definition isEmpty :: "entry_caller \<Rightarrow> bool" where
  "isEmpty c \<longleftrightarrow>
     \<not> truthy_string (ec_file c) \<and> \<not> truthy_string (ec_own_function c) \<and> \<not> truthy_number (ec_line c)"

text \<open>A log entry; its timestamp is a date, given by its time value.\<close>

record log_entry =
  level :: log_level
  log_message :: string
  log_timestamp :: "int option"
  log_attributes :: js_object
  log_traceId :: "string option"
  log_spanId :: "string option"
  log_caller :: "entry_caller option"

definition getTime :: "int option \<Rightarrow> js_number" where
  "getTime d = (case d of Some t \<Rightarrow> Finite (of_int t) | None \<Rightarrow> NaN)"

definition callerToOTLP :: "entry_caller option \<Rightarrow> otlp_key_value list" where
  "callerToOTLP caller =
     (case caller of
        None \<Rightarrow> []
      | Some c \<Rightarrow>
          if isEmpty c then []
          else [(''code.filepath'', StringValue (case ec_file c of Some f \<Rightarrow> f | None \<Rightarrow> ''''))]
             @ (if truthy_number (ec_line c) then [(''code.lineno'', IntValue (show_nat (the (ec_line c))))]
                else [])
             @ (if ec_function c \<noteq> [] then [(''code.function'', StringValue (ec_function c))]
                else []))"

definition logToOTLP :: "runtime \<Rightarrow> log_entry \<Rightarrow> nat \<Rightarrow> js_error + otlp_log_record" where
  "logToOTLP rt entry offsetMicros =
     and_then (attributesToOTLP rt (log_attributes entry)) (\<lambda>attrs.
     and_then (msToNanoStringWithOffset (getTime (log_timestamp entry)) offsetMicros) (\<lambda>time.
     Inr \<lparr>lr_timeUnixNano = time, lr_severityNumber = logLevelToSeverity (level entry),
          lr_severityText = severityText (level entry),
          lr_body = StringValue (log_message entry),
          lr_attributes = attrs @ callerToOTLP (log_caller entry),
          lr_droppedAttributesCount = 0, lr_traceId = log_traceId entry,
          lr_spanId = log_spanId entry\<rparr>))"

definition buildLogExportRequest ::
  "runtime \<Rightarrow> log_entry list \<Rightarrow> string \<Rightarrow> (string \<times> string) list option \<Rightarrow> string \<Rightarrow>
   js_error + otlp_log_record export_request" where
  "buildLogExportRequest rt logs serviceName resourceAttributes version' =
     (let attrs = resourceToOTLP serviceName resourceAttributes
      in and_then (map_try (\<lambda>(index, entry). logToOTLP rt entry index) (enumerate 0 logs))
           (\<lambda>converted.
         Inr \<lparr>resource_attributes = attrs, scope_name = ''otel-cloudflare'',
              scope_version = version', scope_records = converted\<rparr>))"

subsection \<open>Export\<close>

record exporter_config =
  endpoint :: string
  headers :: "(string \<times> string) list"
  serviceName :: "string option"
  resourceAttributes :: "(string \<times> string) list option"

text \<open>
  The transport is \<^verbatim>\<open>getOriginalFetch() ?? globalThis.fetch\<close>, a parameter here. It is
  given the request and either fails, by raising or by a promise that rejects, or gives a
  response; reading the text of a response can fail in turn. The body is carried as the
  request object, not as the text \<^verbatim>\<open>JSON.stringify\<close> makes of it.
\<close>

record 'b fetch_request =
  fr_url :: string
  fr_method :: string
  fr_headers :: "(string \<times> string) list"
  fr_body :: 'b

record fetch_response =
  resp_status :: nat
  resp_statusText :: string
  resp_text :: "js_error + string"

type_synonym 'b fetch = "'b fetch_request \<Rightarrow> js_error + fetch_response"

definition response_ok :: "fetch_response \<Rightarrow> bool" where
  "response_ok response \<longleftrightarrow> 200 \<le> resp_status response \<and> resp_status response \<le> 299"

text \<open>
  What a call of an export function leaves behind: the way its promise settles, the lines
  written with \<^verbatim>\<open>console.error\<close>, and the requests handed to the transport.
\<close>

datatype export_result = Fulfilled | RejectedWith js_error

datatype console_arg = Text string | Thrown js_error

record 'b export_run =
  outcome :: export_result
  console :: "console_arg list list"
  sent :: "'b fetch_request list"

definition export_request_to :: "exporter_config \<Rightarrow> string \<Rightarrow> 'b \<Rightarrow> 'b fetch_request" where
  "export_request_to config path body =
     \<lparr>fr_url = endpoint config @ path, fr_method = ''POST'',
      fr_headers = obj_assign [(''Content-Type'', ''application/json'')] (headers config),
      fr_body = body\<rparr>"

definition exportTraces ::
  "runtime \<Rightarrow> js_number \<Rightarrow> otlp_span export_request fetch \<Rightarrow> exporter_config \<Rightarrow> span list \<Rightarrow>
   string \<Rightarrow> otlp_span export_request export_run" where
  "exportTraces rt now fetchFn config spans serviceName' =
     (if spans = [] then \<lparr>outcome = Fulfilled, console = [], sent = []\<rparr>
      else
        (case buildTraceExportRequest rt now spans
                (case serviceName config of Some n \<Rightarrow> n | None \<Rightarrow> serviceName')
                (resourceAttributes config) ''5.3.0'' of
           Inl e \<Rightarrow> \<lparr>outcome = RejectedWith e, console = [], sent = []\<rparr>
         | Inr body \<Rightarrow>
             (let request = export_request_to config ''/v1/traces'' body
              in (case fetchFn request of
                    Inl error \<Rightarrow>
                      \<lparr>outcome = Fulfilled,
                       console = [[Text ''OTLP trace export error:'', Thrown error]],
                       sent = [request]\<rparr>
                  | Inr response \<Rightarrow>
                      \<lparr>outcome = Fulfilled,
                       console =
                         (if \<not> response_ok response
                          then [[Text (''OTLP trace export failed: ''
                                   @ show_nat (resp_status response) @ '' ''
                                   @ resp_statusText response)]]
                          else []),
                       sent = [request]\<rparr>))))"

definition exportLogs ::
  "runtime \<Rightarrow> otlp_log_record export_request fetch \<Rightarrow> exporter_config \<Rightarrow> log_entry list \<Rightarrow>
   string \<Rightarrow> otlp_log_record export_request export_run" where
  "exportLogs rt fetchFn config logs serviceName' =
     (if logs = [] then \<lparr>outcome = Fulfilled, console = [], sent = []\<rparr>
      else
        (case buildLogExportRequest rt logs
                (case serviceName config of Some n \<Rightarrow> n | None \<Rightarrow> serviceName')
                (resourceAttributes config) ''5.3.0'' of
           Inl e \<Rightarrow> \<lparr>outcome = RejectedWith e, console = [], sent = []\<rparr>
         | Inr body \<Rightarrow>
             (let request = export_request_to config ''/v1/logs'' body
              in (case fetchFn request of
                    Inl error \<Rightarrow>
                      \<lparr>outcome = Fulfilled,
                       console = [[Text ''[otel-cloudflare] OTLP log export error:'', Thrown error]],
                       sent = [request]\<rparr>
                  | Inr response \<Rightarrow>
                      \<lparr>outcome = Fulfilled,
                       console =
                         (if \<not> response_ok response
                          then (case resp_text response of
                                  Inl error \<Rightarrow>
                                    [[Text ''[otel-cloudflare] OTLP log export error:'', Thrown error]]
                                | Inr text' \<Rightarrow>
                                    [[Text (''[otel-cloudflare] OTLP log export failed: ''
                                        @ show_nat (resp_status response) @ '' ''
                                        @ resp_statusText response),
                                      Text text']])
                          else []),
                       sent = [request]\<rparr>))))"

text \<open>
  Inputs for the examples: a configuration, a span, a log entry, and two responses of the
  transport.
\<close>

definition example_config :: exporter_config where
  "example_config =
     \<lparr>endpoint = ''https://otlp.example/otlp'', headers = [(''Authorization'', ''Basic abc'')],
      serviceName = None, resourceAttributes = None\<rparr>"





section \<open>Request adapters (src/src/instrument.ts)\<close>

text \<open>
  An entry of the ignore list is a string or a regular expression; of the latter only
  the language it tests for is kept, as a predicate on the path.
\<close>

datatype url_pattern = StringPattern string | RegExpPattern "string \<Rightarrow> bool"

definition DEFAULT_IGNORE_URLS :: "url_pattern list" where
  "DEFAULT_IGNORE_URLS =
     [StringPattern ''/health'', StringPattern ''/healthz'', StringPattern ''/ready'',
      StringPattern ''/readyz'', StringPattern ''/live'', StringPattern ''/livez'',
      StringPattern ''/ping'']"

text \<open>
  A request, with the parts \<^verbatim>\<open>new URL(request.url)\<close> splits its URL into. Header names
  are in lower case. Bodies are left out, and with them the truncated copies taken for
  the log.
\<close>

record http_request =
  req_method :: string
  req_url :: string
  url_protocol :: string
  url_hostname :: string
  url_port :: string
  url_pathname :: string
  url_search :: string
  req_headers :: "(string \<times> string) list"

record http_response =
  res_status :: nat
  res_statusText :: string
  res_headers :: "(string \<times> string) list"
  res_body :: string

definition pattern_test :: "string \<Rightarrow> url_pattern \<Rightarrow> bool" where
  "pattern_test pathname pattern =
     (case pattern of
        StringPattern s \<Rightarrow> pathname = s
      | RegExpPattern test \<Rightarrow> test pathname)"

definition shouldIgnoreUrl :: "http_request \<Rightarrow> url_pattern list option \<Rightarrow> bool" where
  "shouldIgnoreUrl request ignoreUrls =
     (let patterns = (case ignoreUrls of Some p \<Rightarrow> p | None \<Rightarrow> DEFAULT_IGNORE_URLS)
      in if patterns = [] then False
         else list_ex (pattern_test (url_pathname request)) patterns)"

subsection \<open>Collectors (flush.ts)\<close>

text \<open>
  Of \<^verbatim>\<open>initOTLP\<close> the state keeps the registration of the collector of spans: the
  active processor is reused, and a new \<^verbatim>\<open>SimpleSpanProcessor\<close> is registered when
  there is none. The tracer provider it registers is the tracer above; the collector of
  log entries is not modelled.
\<close>

definition initOTLP :: "world \<Rightarrow> world" where
  "initOTLP w =
     (case activeSpanProcessor w of
        None \<Rightarrow> w\<lparr>activeSpanProcessor := Some []\<rparr>
      | Some spanProcessor \<Rightarrow> w)"

text \<open>
  \<^verbatim>\<open>flush\<close>: without a configuration the collector is cleared; with one, the collected
  spans are handed to \<^verbatim>\<open>exportTraces\<close> and the collector is cleared once the export
  has settled. The result is the batch handed to the exporter and the state after the
  clearing.
\<close>

definition flush :: "exporter_config option \<Rightarrow> world \<Rightarrow> span list \<times> world" where
  "flush config w =
     (case activeSpanProcessor w of
        None \<Rightarrow> ([], w)
      | Some spans \<Rightarrow>
          ((case config of None \<Rightarrow> [] | Some c \<Rightarrow> List.map_filter (heap w) spans),
           w\<lparr>activeSpanProcessor := Some []\<rparr>))"

subsection \<open>The traced request\<close>

text \<open>
  What \<^verbatim>\<open>await\<close> makes of a call: a value that is not a promise is awaited like a
  resolved one, and an exception thrown by the call is the rejection of the surrounding
  asynchronous function.
\<close>

definition settle_async :: "'a settle \<times> world \<Rightarrow> 'a settle \<times> world" where
  "settle_async r =
     (case r of
        (Returns v, w) \<Rightarrow> (Resolves v, w)
      | (Throws e, w) \<Rightarrow> (Rejects e, w)
      | (Resolves v, w) \<Rightarrow> (Resolves v, w)
      | (Rejects e, w) \<Rightarrow> (Rejects e, w))"

definition headers_get :: "string \<Rightarrow> (string \<times> string) list \<Rightarrow> string option" where
  "headers_get key hs = map_of hs key"

definition headers_set :: "string \<Rightarrow> string \<Rightarrow> (string \<times> string) list \<Rightarrow> (string \<times> string) list" where
  "headers_set key value hs =
     (if key \<in> fst ` set hs
      then map (\<lambda>(k, v). if k = key then (k, value) else (k, v)) hs
      else hs @ [(key, value)])"

definition getTraceparent :: "world \<Rightarrow> otel_context \<Rightarrow> string option" where
  "getTraceparent w ctx =
     (case getSpan ctx of
        None \<Rightarrow> None
      | Some sp \<Rightarrow> map_option toTraceparent (spanContext_of w sp))"

definition server_attributes :: "http_request \<Rightarrow> js_object" where
  "server_attributes request =
     [(''http.request.method'', JString (req_method request)),
      (''url.full'', JString (req_url request)),
      (''url.scheme'', JString (remove1 CHR '':'' (url_protocol request))),
      (''url.path'', JString (url_pathname request)),
      (''url.query'',
         if url_search request \<noteq> [] then JString (tl (url_search request)) else JUndefined),
      (''server.address'', JString (url_hostname request)),
      (''server.port'',
         JNumber (Finite (of_int
           (if url_port request \<noteq> [] then int_of_digits (url_port request)
            else if url_protocol request = ''https:'' then 443 else 80))))]"

text \<open>The message of a thrown value; a value that is not an error has none.\<close>

definition exception_message :: "exception \<Rightarrow> string option" where
  "exception_message e = (case e of ExcError nm msg stack \<Rightarrow> Some msg | _ \<Rightarrow> None)"

definition with_traceparent :: "string option \<Rightarrow> (string \<times> string) list \<Rightarrow> (string \<times> string) list" where
  "with_traceparent traceparent hs =
     (case traceparent of
        Some tp \<Rightarrow> if tp \<noteq> [] then headers_set ''traceparent'' tp hs else hs
      | None \<Rightarrow> hs)"

text \<open>The two ends of the callback: the handler gave a response, or it failed.\<close>

definition respond ::
  "nat \<Rightarrow> string option \<Rightarrow> http_response \<Rightarrow> world \<Rightarrow> http_response settle \<times> world" where
  "respond sp traceparent response w =
     (let w1 = span_call sp (SetAttribute ''http.response.status_code''
                              (JNumber (Finite (of_nat (res_status response))))) w;
          w2 = (if res_status response \<ge> 400
                then span_call sp
                       (SetStatus \<lparr>code = ERROR,
                                   message = Some (''HTTP '' @ show_nat (res_status response))\<rparr>) w1
                else w1);
          w3 = span_call sp (End None) w2
      in (Resolves (response\<lparr>res_headers := with_traceparent traceparent (res_headers response)\<rparr>),
          w3))"

definition fail ::
  "nat \<Rightarrow> string option \<Rightarrow> exception \<Rightarrow> world \<Rightarrow> http_response settle \<times> world" where
  "fail sp traceparent error w =
     (let traceId' = (case heap w sp of Some s \<Rightarrow> sc_traceId (spanContext s) | None \<Rightarrow> []);
          w1 = span_call sp (RecordException error None) w;
          w2 = span_call sp (SetAttribute ''http.response.status_code'' (JNumber (Finite 500))) w1;
          w3 = span_call sp (SetStatus \<lparr>code = ERROR, message = exception_message error\<rparr>) w2;
          w4 = span_call sp (End None) w3
      in (Resolves \<lparr>res_status = 500, res_statusText = [],
                    res_headers = with_traceparent traceparent [(''content-type'', ''text/plain'')],
                    res_body = ''Internal Server Error'' @ [CHR 0x0A] @ ''Request ID: '' @ traceId'\<rparr>,
          w4))"

definition traced_callback :: "http_response callback \<Rightarrow> http_response callback" where
  "traced_callback run =
     (\<lambda>sp ctx w.
        (let traceparent = getTraceparent w ctx
         in (case run sp ctx w of
               (Returns response, w2) \<Rightarrow> respond sp traceparent response w2
             | (Resolves response, w2) \<Rightarrow> respond sp traceparent response w2
             | (Throws error, w2) \<Rightarrow> fail sp traceparent error w2
             | (Rejects error, w2) \<Rightarrow> fail sp traceparent error w2)))"

text \<open>
  The part the two adapters have in common: the parent is taken from the
  \<^verbatim>\<open>traceparent\<close> header, and the handler runs in a \<^verbatim>\<open>SERVER\<close> span.
\<close>

definition serve_traced ::
  "http_request \<Rightarrow> http_response callback \<Rightarrow> otel_context \<Rightarrow> world \<Rightarrow>
   http_response settle \<times> world" where
  "serve_traced request run ambient w =
     (let incomingTraceparent = headers_get ''traceparent'' (req_headers request);
          parentSpanContext =
            (case incomingTraceparent of
               Some tp \<Rightarrow> if tp \<noteq> [] then spanContextFromTraceparent tp else None
             | None \<Rightarrow> None);
          spanName = req_method request @ '' '' @ url_pathname request;
          parentContext =
            (case parentSpanContext of
               Some psc \<Rightarrow> setSpan ambient (wrapSpanContext psc)
             | None \<Rightarrow> ambient)
      in settle_async
           (startActiveSpan spanName
              (Some \<lparr>opt_kind = Some SERVER, opt_attributes = Some (server_attributes request),
                     opt_links = None, opt_startTime = None\<rparr>)
              None (traced_callback run) parentContext w))"

subsection \<open>traceHandler\<close>

text \<open>
  The options of \<^verbatim>\<open>traceHandler\<close>; \<open>th_config\<close> is the exporter configuration found
  in \<^verbatim>\<open>options.env\<close>, if any. The result is the settled promise, the batch of spans the
  final \<^verbatim>\<open>flush\<close> hands to the exporter, and the state.
\<close>

record trace_handler_options =
  th_config :: "exporter_config option"
  th_serviceName :: "string option"
  th_ignoreUrls :: "url_pattern list option"

definition traceHandler ::
  "http_request \<Rightarrow> http_response callback \<Rightarrow> trace_handler_options option \<Rightarrow> otel_context \<Rightarrow>
   world \<Rightarrow> http_response settle \<times> span list \<times> world" where
  "traceHandler request handler options ambient w =
     (let w0 = initOTLP w;
          (result, w') =
            (if shouldIgnoreUrl request (Option.bind options th_ignoreUrls)
             then (let (noopSpan, w1) = startSpan ''noop'' None None ambient w0;
                       w2 = span_call noopSpan (End None) w1
                   in settle_async (handler noopSpan ambient w2))
             else serve_traced request handler ambient w0);
          (batch, w'') = flush (Option.bind options th_config) w'
      in (result, batch, w''))"

subsection \<open>The fetch handler of instrument\<close>

text \<open>
  The options as \<^verbatim>\<open>resolveOptions\<close> gives them; \<open>detected\<close> is the configuration
  \<^verbatim>\<open>getOTLPConfigFromEnv\<close> finds in the environment.
\<close>

record instrument_options =
  io_serviceName :: "string option"
  io_ignoreUrls :: "url_pattern list option"
  io_exporter :: "exporter_config option"
  io_disableExport :: bool

definition getExporterConfig ::
  "instrument_options \<Rightarrow> exporter_config option \<Rightarrow> exporter_config option" where
  "getExporterConfig opts detected =
     (if io_disableExport opts then None
      else
        (case io_exporter opts of
           Some exporter \<Rightarrow>
             Some (exporter\<lparr>serviceName :=
                     (case serviceName exporter of
                        Some n \<Rightarrow> Some n
                      | None \<Rightarrow> io_serviceName opts)\<rparr>)
         | None \<Rightarrow>
             (case detected of
                None \<Rightarrow> None
              | Some config \<Rightarrow>
                  if truthy_string (io_serviceName opts)
                  then Some (config\<lparr>serviceName := io_serviceName opts\<rparr>)
                  else Some config)))"

definition instrumented_fetch ::
  "(http_request \<Rightarrow> otel_context \<Rightarrow> world \<Rightarrow> http_response settle \<times> world) \<Rightarrow>
   instrument_options \<Rightarrow> exporter_config option \<Rightarrow> http_request \<Rightarrow> otel_context \<Rightarrow> world \<Rightarrow>
   http_response settle \<times> span list \<times> world" where
  "instrumented_fetch originalFetch opts detected request ambient w =
     (if shouldIgnoreUrl request (io_ignoreUrls opts)
      then (let (result, w') = settle_async (originalFetch request ambient w)
            in (result, [], w'))
      else
        (let exporterConfig = getExporterConfig opts detected;
             w0 = initOTLP w;
             (result, w') = serve_traced request (\<lambda>sp. originalFetch request) ambient w0
         in (case result of
               Rejects e \<Rightarrow> (result, [], w')
             | _ \<Rightarrow> (let (batch, w'') = flush exporterConfig w' in (result, batch, w'')))))"

text \<open>Inputs for the examples: a health check, and a handler that answers it.\<close>

definition health_request :: http_request where
  "health_request =
     \<lparr>req_method = ''GET'', req_url = ''https://api.example/health'',
      url_protocol = ''https:'', url_hostname = ''api.example'', url_port = [],
      url_pathname = ''/health'', url_search = [], req_headers = []\<rparr>"

definition ok_response :: http_response where
  "ok_response = \<lparr>res_status = 200, res_statusText = ''OK'', res_headers = [], res_body = ''ok''\<rparr>"

section \<open>Properties of the codec\<close>

subsection \<open>Splitting and joining\<close>

lemma split_on_nonempty: "split_on c s \<noteq> []"
  by (induction s) (auto split: list.splits)

lemma split_on_no_sep: "c \<notin> set p \<Longrightarrow> split_on c p = [p]"
  by (induction p) auto

lemma split_on_field: "c \<notin> set p \<Longrightarrow> split_on c (p @ c # rest) = p # split_on c rest"
  by (induction p) auto

lemma join_split_on: "join_with c (split_on c s) = s"
proof (induction s)
  case Nil
  show ?case by simp
next
  case (Cons x xs)
  show ?case
  proof (cases "x = c")
    case True
    obtain p ps where ps: "split_on c xs = p # ps"
      using split_on_nonempty [of c xs] by (cases "split_on c xs") auto
    with True Cons show ?thesis by simp
  next
    case False
    obtain p ps where ps: "split_on c xs = p # ps"
      using split_on_nonempty [of c xs] by (cases "split_on c xs") auto
    with False Cons show ?thesis by (cases ps) auto
  qed
qed

lemma split_on_fields_no_sep: "p \<in> set (split_on c s) \<Longrightarrow> c \<notin> set p"
proof (induction s arbitrary: p)
  case Nil
  then show ?case by simp
next
  case (Cons x xs)
  obtain q qs where qs: "split_on c xs = q # qs"
    using split_on_nonempty [of c xs] by (cases "split_on c xs") auto
  show ?case
  proof (cases "x = c")
    case True
    with Cons.prems have "p = [] \<or> p \<in> set (split_on c xs)" by simp
    with Cons.IH show ?thesis by auto
  next
    case False
    with Cons.prems qs have "p = x # q \<or> p \<in> set qs" by simp
    moreover have "c \<notin> set q" using Cons.IH [of q] qs by simp
    moreover have "p \<in> set qs \<Longrightarrow> c \<notin> set p" using Cons.IH [of p] qs by simp
    ultimately show ?thesis using False by auto
  qed
qed

lemma hex_chars_no_dash: "list_all is_hex_char s \<Longrightarrow> CHR ''-'' \<notin> set s"
  by (induction s) (auto simp: is_hex_char_def)

lemma hex_field_no_dash: "hex_field n s \<Longrightarrow> CHR ''-'' \<notin> set s"
  by (simp add: hex_field_def hex_regex_test_def hex_chars_no_dash)

lemma split_on_wire:
  assumes "CHR ''-'' \<notin> set v" "CHR ''-'' \<notin> set t" "CHR ''-'' \<notin> set s" "CHR ''-'' \<notin> set f"
  shows "split_on CHR ''-'' (v @ ''-'' @ t @ ''-'' @ s @ ''-'' @ f) = [v, t, s, f]"
  using assms by (simp add: split_on_field split_on_no_sep)



lemma parse_some_iff:
  "parseTraceparent w = Some c \<longleftrightarrow>
     (w = ''00-'' @ traceId c @ ''-'' @ spanId c @ ''-'' @ flags c \<and> version c = ''00'' \<and>
      hex_field 32 (traceId c) \<and> hex_field 16 (spanId c) \<and> hex_field 2 (flags c))"
proof
  assume a: "parseTraceparent w = Some c"
  then obtain v t s f where sp: "split_on CHR ''-'' w = [v, t, s, f]"
    by (auto simp: parseTraceparent_def split: list.splits)
  from a sp have c: "v = ''00''" "hex_field 32 t" "hex_field 16 s" "hex_field 2 f"
    "c = \<lparr>version = v, traceId = t, spanId = s, flags = f\<rparr>"
    by (auto simp: parseTraceparent_def hex_field_def split: if_splits)
  have "w = join_with CHR ''-'' (split_on CHR ''-'' w)" by (simp add: join_split_on)
  also have "\<dots> = v @ ''-'' @ t @ ''-'' @ s @ ''-'' @ f" by (simp add: sp)
  finally show "w = ''00-'' @ traceId c @ ''-'' @ spanId c @ ''-'' @ flags c \<and> version c = ''00'' \<and>
      hex_field 32 (traceId c) \<and> hex_field 16 (spanId c) \<and> hex_field 2 (flags c)"
    using c by simp
next
  assume b: "w = ''00-'' @ traceId c @ ''-'' @ spanId c @ ''-'' @ flags c \<and> version c = ''00'' \<and>
      hex_field 32 (traceId c) \<and> hex_field 16 (spanId c) \<and> hex_field 2 (flags c)"
  then have nd: "CHR ''-'' \<notin> set (traceId c)" "CHR ''-'' \<notin> set (spanId c)"
    "CHR ''-'' \<notin> set (flags c)"
    using hex_field_no_dash by blast+
  have "split_on CHR ''-'' w = [''00'', traceId c, spanId c, flags c]"
    using b nd by (simp add: split_on_field split_on_no_sep)
  with b show "parseTraceparent w = Some c"
    by (simp add: parseTraceparent_def hex_field_def)
qed


section \<open>Properties of the span engine\<close>

subsection \<open>Identifiers\<close>


declare toString16.simps [simp del]

lemma hex_digit_lower: "hex_digit n \<in> set ''0123456789abcdef''"
  unfolding hex_digit_def by (rule nth_mem) simp

lemma hex_digit_is_hex: "is_hex_char (hex_digit n)"
  using hex_digit_lower [of n] by (auto simp: is_hex_char_def)

lemma toString16_small: "n < 16 \<Longrightarrow> toString16 n = [hex_digit n]"
  by (subst toString16.simps) simp

lemma toString16_byte:
  assumes "16 \<le> n" "n < 256"
  shows "toString16 n = [hex_digit (n div 16), hex_digit n]"
proof -
  from assms have "n div 16 < 16" by simp
  then have "toString16 (n div 16) = [hex_digit (n div 16)]" by (rule toString16_small)
  with assms show ?thesis by (subst toString16.simps) simp
qed

lemma byte_hex_cases:
  "byte_hex b = (if unat b < 16 then [CHR ''0'', hex_digit (unat b)]
                 else [hex_digit (unat b div 16), hex_digit (unat b)])"
proof -
  have "unat b < 2 ^ LENGTH(8)" by (rule unsigned_less)
  then have "unat b < 256" by simp
  then show ?thesis
    by (auto simp: byte_hex_def padStart_def toString16_small toString16_byte)
qed

lemma byte_hex_length: "length (byte_hex b) = 2"
  by (simp add: byte_hex_cases)

lemma zero_is_hex: "is_hex_char CHR ''0''"
  by (simp add: is_hex_char_def)

lemma byte_hex_is_hex: "list_all is_hex_char (byte_hex b)"
  by (simp add: byte_hex_cases hex_digit_is_hex zero_is_hex)

lemma hex_of_bytes_length: "length (concat (map byte_hex bs)) = 2 * length bs"
  by (induction bs) (simp_all add: byte_hex_length)

lemma hex_of_bytes_is_hex: "list_all is_hex_char (concat (map byte_hex bs))"
  by (induction bs) (simp_all add: byte_hex_is_hex)

lemma hex_of_bytes_field:
  assumes "length bs = n" "0 < n"
  shows "hex_field (2 * n) (concat (map byte_hex bs))"
proof -
  have "length (concat (map byte_hex bs)) = 2 * n"
    using assms by (simp add: hex_of_bytes_length)
  moreover from this assms have "concat (map byte_hex bs) \<noteq> []"
    by (metis length_0_conv mult_is_0 less_numeral_extra(3) zero_neq_numeral)
  ultimately show ?thesis
    by (simp add: hex_field_def hex_regex_test_def hex_of_bytes_is_hex)
qed

lemma generateTraceId_fst:
  "fst (generateTraceId w) = concat (map byte_hex (map (entropy w) [drawn w ..< drawn w + 16]))"
  by (simp add: generateTraceId_def getRandomValues_def)

lemma generateSpanId_fst:
  "fst (generateSpanId w) = concat (map byte_hex (map (entropy w) [drawn w ..< drawn w + 8]))"
  by (simp add: generateSpanId_def getRandomValues_def)

lemma generateTraceId_hex: "hex_field 32 (fst (generateTraceId w))"
  using hex_of_bytes_field [of "map (entropy w) [drawn w ..< drawn w + 16]" 16]
  by (simp add: generateTraceId_fst)

lemma generateSpanId_hex: "hex_field 16 (fst (generateSpanId w))"
  using hex_of_bytes_field [of "map (entropy w) [drawn w ..< drawn w + 8]" 8]
  by (simp add: generateSpanId_fst)


subsection \<open>Starting a span\<close>

lemma new_span_heap:
  "new_CloudflareSpan n sc k p st a l w = (r, w') \<Longrightarrow>
     r = next_ref w \<and> (\<exists>s. heap w' r = Some s \<and> spanContext s = sc \<and> parentSpanId s = p \<and> kind s = k
        \<and> name s = n \<and> \<not> ended s \<and> endTime s = None \<and> events s = [] \<and> status s = \<lparr>code = UNSET, message = None\<rparr>)"
  by (auto simp: new_CloudflareSpan_def Let_def)

lemma startSpan_unfold:
  "startSpan name' options ctx ambient w =
     (let psc = parent_span_context w (effective_context ctx ambient);
          w1 = (case psc of Some p \<Rightarrow> w | None \<Rightarrow> snd (generateTraceId w))
      in new_CloudflareSpan name'
           \<lparr>sc_traceId = (case psc of Some p \<Rightarrow> sc_traceId p | None \<Rightarrow> fst (generateTraceId w)),
            sc_spanId = fst (generateSpanId w1), traceFlags = SAMPLED, isRemote = False\<rparr>
           (case Option.bind options opt_kind of Some k \<Rightarrow> k | None \<Rightarrow> INTERNAL)
           (map_option sc_spanId psc)
           (Option.bind options opt_startTime) (Option.bind options opt_attributes)
           (Option.bind options opt_links) (snd (generateSpanId w1)))"
  by (simp add: startSpan_def Let_def split_def split: option.splits)

lemma startSpan_props:
  assumes "startSpan name' options ctx ambient w = (r, w')"
  shows "\<exists>s. heap w' r = Some s \<and> r = next_ref w \<and> \<not> ended s \<and> name s = name' \<and>
           hex_field 16 (sc_spanId (spanContext s)) \<and>
           (\<forall>psc. parent_span_context w (effective_context ctx ambient) = Some psc \<longrightarrow>
               sc_traceId (spanContext s) = sc_traceId psc \<and>
               parentSpanId s = Some (sc_spanId psc) \<and>
               sc_spanId (spanContext s) = fst (generateSpanId w)) \<and>
           (getSpan (effective_context ctx ambient) = None \<longrightarrow>
               parentSpanId s = None \<and>
               sc_traceId (spanContext s) = fst (generateTraceId w) \<and>
               hex_field 32 (sc_traceId (spanContext s)) \<and>
               sc_spanId (spanContext s) = fst (generateSpanId (snd (generateTraceId w)))) \<and>
           (Option.bind options opt_kind = None \<longrightarrow> kind s = INTERNAL) \<and>
           (\<forall>k. Option.bind options opt_kind = Some k \<longrightarrow> kind s = k)"
proof -
  let ?psc = "parent_span_context w (effective_context ctx ambient)"
  let ?w1 = "case ?psc of Some p \<Rightarrow> w | None \<Rightarrow> snd (generateTraceId w)"
  have nr: "next_ref (snd (generateSpanId ?w1)) = next_ref w"
    by (simp add: generateSpanId_def generateTraceId_def getRandomValues_def split: option.splits)
  from new_span_heap [OF assms [unfolded startSpan_unfold Let_def]]
  obtain s where s: "heap w' r = Some s" "r = next_ref w" "\<not> ended s" "name s = name'"
    "spanContext s = \<lparr>sc_traceId = (case ?psc of Some p \<Rightarrow> sc_traceId p | None \<Rightarrow> fst (generateTraceId w)),
            sc_spanId = fst (generateSpanId ?w1), traceFlags = SAMPLED, isRemote = False\<rparr>"
    "parentSpanId s = map_option sc_spanId ?psc"
    "kind s = (case Option.bind options opt_kind of Some k \<Rightarrow> k | None \<Rightarrow> INTERNAL)"
    unfolding nr by blast
  have none: "getSpan (effective_context ctx ambient) = None \<Longrightarrow> ?psc = None"
    by (simp add: parent_span_context_def)
  show ?thesis
    apply (rule exI [of _ s])
    using s none
    by (auto simp: generateSpanId_hex generateTraceId_hex)
qed


subsection \<open>Calls on a span\<close>


lemma world_heap_same: "heap w r = Some s \<Longrightarrow> w\<lparr>heap := (heap w)(r \<mapsto> s)\<rparr> = w"
  by (simp add: map_upd_triv)

lemma on_span_id: "heap w r = Some s \<Longrightarrow> f s = s \<Longrightarrow> on_span r f w = w"
  by (simp add: on_span_def world_heap_same)

lemma on_span_heap: "heap w r = Some s \<Longrightarrow> heap (on_span r f w) = (heap w)(r \<mapsto> f s)"
  by (simp add: on_span_def)

lemma on_span_other [simp]:
  "activeSpanProcessor (on_span r f w) = activeSpanProcessor w"
  "next_ref (on_span r f w) = next_ref w"
  "clock (on_span r f w) = clock w"
  "entropy (on_span r f w) = entropy w"
  "drawn (on_span r f w) = drawn w"
  by (simp_all add: on_span_def split: option.splits)

lemma Date_now_on_span [simp]: "Date_now (on_span r f w) = Date_now w"
  by (simp add: Date_now_def)

lemma ended_mutators:
  "ended s \<Longrightarrow> setAttribute k v s = s"
  "ended s \<Longrightarrow> setAttributes a s = s"
  "ended s \<Longrightarrow> addEvent n aot t now s = s"
  "ended s \<Longrightarrow> addLink l s = s"
  "ended s \<Longrightarrow> addLinks ls s = s"
  "ended s \<Longrightarrow> setStatus st s = s"
  "ended s \<Longrightarrow> updateName n s = s"
  "ended s \<Longrightarrow> recordException e t now s = s"
  by (simp_all add: setAttribute_def setAttributes_def addEvent_def addLink_def addLinks_def
      setStatus_def updateName_def recordException_def)

lemma mutators_keep_ended:
  "ended (setAttribute k v s) = ended s"
  "ended (setAttributes a s) = ended s"
  "ended (addEvent n aot t now s) = ended s"
  "ended (addLink l s) = ended s"
  "ended (addLinks ls s) = ended s"
  "ended (setStatus st s) = ended s"
  "ended (updateName n' s) = ended s"
  "ended (recordException e t now s) = ended s"
  by (simp_all add: setAttribute_def setAttributes_def addEvent_def addLink_def addLinks_def
      setStatus_def updateName_def recordException_def split_def Let_def)

lemma span_call_ended: "heap w r = Some s \<Longrightarrow> ended s \<Longrightarrow> span_call r opn w = w"
  by (cases opn) (simp_all add: on_span_id ended_mutators span_end_def)

lemma span_end_result:
  "heap w r = Some s \<Longrightarrow>
   heap (span_end r t w) r = Some (if ended s then s else span_end_fields t (Date_now w) s)"
  by (simp add: span_end_def)

lemma span_end_is_ended: "heap w r = Some s \<Longrightarrow> \<exists>s'. heap (span_end r t w) r = Some s' \<and> ended s'"
  by (simp add: span_end_result span_end_fields_def)

lemma fold_span_call_ended:
  "heap w r = Some s \<Longrightarrow> ended s \<Longrightarrow> fold (span_call r) ops w = w"
  by (induction ops) (simp_all add: span_call_ended)

lemma mutator_call:
  assumes "is_mutator opn" "heap w r = Some s"
  shows "\<exists>s'. heap (span_call r opn w) r = Some s' \<and> ended s' = ended s"
    and "activeSpanProcessor (span_call r opn w) = activeSpanProcessor w"
  using assms by (cases opn; simp add: on_span_heap mutators_keep_ended)+

lemma notify_at_most_once:
  assumes "heap w r = Some s" "\<not> ended s" "activeSpanProcessor w = Some coll"
  shows "activeSpanProcessor (fold (span_call r) ops w) =
           Some (if \<exists>t. End t \<in> set ops then coll @ [r] else coll)"
  using assms
proof (induction ops arbitrary: w s)
  case Nil
  then show ?case by simp
next
  case (Cons opn ops)
  show ?case
  proof (cases "is_mutator opn")
    case True
    with Cons.prems obtain s' where s': "heap (span_call r opn w) r = Some s'" "\<not> ended s'"
      "activeSpanProcessor (span_call r opn w) = Some coll"
      using mutator_call [of opn w r s] by auto
    from True have "\<And>t. End t \<noteq> opn" by auto
    with Cons.IH [OF s'] show ?thesis by simp
  next
    case False
    then obtain t where t: "opn = End t" by (cases opn) auto
    let ?w1 = "span_end r t w"
    from Cons.prems obtain s' where s': "heap ?w1 r = Some s'" "ended s'"
      using span_end_is_ended by blast
    have "activeSpanProcessor ?w1 = Some (coll @ [r])"
      using Cons.prems by (simp add: span_end_def onEnd_def)
    with t s' show ?thesis by (auto simp: fold_span_call_ended)
  qed
qed



lemma span_call_frame [simp]:
  "next_ref (span_call r opn w) = next_ref w"
  "clock (span_call r opn w) = clock w"
  "entropy (span_call r opn w) = entropy w"
  "drawn (span_call r opn w) = drawn w"
  by (cases opn; simp add: span_end_def split: option.splits)+

lemma span_call_heap_other: "q \<noteq> r \<Longrightarrow> heap (span_call r opn w) q = heap w q"
  by (cases opn) (simp_all add: on_span_def span_end_def split: option.splits)


lemma span_call_heap_Some: "heap w q = Some s \<Longrightarrow> \<exists>s'. heap (span_call r opn w) q = Some s'"
  by (cases opn) (auto simp: on_span_def span_end_def split: option.splits)



lemma span_call_ended_mono:
  "heap w q = Some s \<Longrightarrow> heap (span_call r opn w) q = Some s' \<Longrightarrow> ended s \<Longrightarrow> s' = s"
  by (cases "q = r") (simp_all add: span_call_ended span_call_heap_other)





subsection \<open>Callbacks preserve the bookkeeping\<close>

lemma generate_frame [simp]:
  "heap (snd (generateSpanId w)) = heap w"
  "next_ref (snd (generateSpanId w)) = next_ref w"
  "activeSpanProcessor (snd (generateSpanId w)) = activeSpanProcessor w"
  "clock (snd (generateSpanId w)) = clock w"
  "entropy (snd (generateSpanId w)) = entropy w"
  "heap (snd (generateTraceId w)) = heap w"
  "next_ref (snd (generateTraceId w)) = next_ref w"
  "activeSpanProcessor (snd (generateTraceId w)) = activeSpanProcessor w"
  "clock (snd (generateTraceId w)) = clock w"
  "entropy (snd (generateTraceId w)) = entropy w"
  by (simp_all add: generateSpanId_def generateTraceId_def getRandomValues_def)

lemma new_span_frame:
  assumes "new_CloudflareSpan n sc k p st a l w = (r, w')"
  shows "r = next_ref w" "next_ref w' = Suc (next_ref w)"
    "activeSpanProcessor w' = activeSpanProcessor w" "clock w' = clock w"
    "entropy w' = entropy w" "drawn w' = drawn w"
    "\<And>q. q \<noteq> next_ref w \<Longrightarrow> heap w' q = heap w q"
  using assms by (auto simp: new_CloudflareSpan_def Let_def)

lemma startSpan_frame:
  assumes "startSpan name' options ctx ambient w = (r, w1)"
  shows "r = next_ref w" "next_ref w1 = Suc (next_ref w)"
    "activeSpanProcessor w1 = activeSpanProcessor w" "clock w1 = clock w"
    "entropy w1 = entropy w"
    "\<And>q. q \<noteq> next_ref w \<Longrightarrow> heap w1 q = heap w q"
  using new_span_frame [OF assms [unfolded startSpan_unfold Let_def]]
  by (simp_all split: option.splits)









subsection \<open>Settling\<close>





section \<open>The claims about the codec\<close>


lemma hex_field_example32: "hex_field 32 ''0af7651916cd43dd8448eb211c80319c''"
  by (simp add: hex_field_def hex_regex_test_def is_hex_char_def)

lemma hex_field_example16: "hex_field 16 ''B7AD6B7169203331''"
  by (simp add: hex_field_def hex_regex_test_def is_hex_char_def)

text \<open>
  C4. For a trace id of exactly 32 hexadecimal characters and a span id of exactly 16,
  parsing the wire string that \<^verbatim>\<open>toTraceparent\<close> produces succeeds and gives
  back the same trace id and span id, with version \<open>00\<close>; the wire string has the
  four fields \<open>00\<close>, trace id, span id and \<open>01\<close> whatever the flags and the
  remote mark of the span context it was made from.
\<close>

theorem traceparent_roundtrip:
  assumes "hex_field 32 t" "hex_field 16 s"
  shows "parseTraceparent
           (toTraceparent \<lparr>sc_traceId = t, sc_spanId = s, traceFlags = fl, isRemote = rem\<rparr>)
         = Some \<lparr>version = ''00'', traceId = t, spanId = s, flags = ''01''\<rparr> \<and>
         split_on CHR ''-''
           (toTraceparent \<lparr>sc_traceId = t, sc_spanId = s, traceFlags = fl, isRemote = rem\<rparr>)
         = [''00'', t, s, ''01'']"
proof -
  have f: "hex_field 2 ''01''" by (simp add: hex_field_def hex_regex_test_def is_hex_char_def)
  have nd: "CHR ''-'' \<notin> set t" "CHR ''-'' \<notin> set s"
    using assms hex_field_no_dash by blast+
  have "split_on CHR ''-''
           (toTraceparent \<lparr>sc_traceId = t, sc_spanId = s, traceFlags = fl, isRemote = rem\<rparr>)
         = [''00'', t, s, ''01'']"
    using nd by (simp add: toTraceparent_def split_on_field split_on_no_sep)
  moreover have "parseTraceparent
           (toTraceparent \<lparr>sc_traceId = t, sc_spanId = s, traceFlags = fl, isRemote = rem\<rparr>)
         = Some \<lparr>version = ''00'', traceId = t, spanId = s, flags = ''01''\<rparr>"
    using assms f by (simp add: parse_some_iff toTraceparent_def)
  ultimately show ?thesis by simp
qed

theorem traceparent_roundtrip_witness:
  "hex_field 32 ''0af7651916cd43dd8448eb211c80319c'' \<and> hex_field 16 ''B7AD6B7169203331'' \<and>
   parseTraceparent
     (toTraceparent \<lparr>sc_traceId = ''0af7651916cd43dd8448eb211c80319c'',
                     sc_spanId = ''B7AD6B7169203331'', traceFlags = 0, isRemote = True\<rparr>)
   = Some \<lparr>version = ''00'', traceId = ''0af7651916cd43dd8448eb211c80319c'',
            spanId = ''B7AD6B7169203331'', flags = ''01''\<rparr>"
  using traceparent_roundtrip [OF hex_field_example32 hex_field_example16, of 0 True]
    hex_field_example32 hex_field_example16
  by simp

text \<open>
  C5. \<^verbatim>\<open>parseTraceparent\<close> is a total function into an option, so no input
  makes it throw. It returns the invalid marker exactly when the input does not split
  on \<open>-\<close> into four fields, or the first is not \<open>00\<close>, or the second is not 32
  hexadecimal characters, or the third is not 16, or the fourth is not 2; otherwise it
  returns the context made of the four fields. Equivalently, it returns a context
  \<open>c\<close> exactly for the input \<open>00-t-s-f\<close> built from the fields of \<open>c\<close>.
\<close>

theorem parseTraceparent_exact:
  "(parseTraceparent w = None \<longleftrightarrow>
      (let parts = split_on CHR ''-'' w in
         length parts \<noteq> 4 \<or> parts ! 0 \<noteq> ''00'' \<or> \<not> hex_field 32 (parts ! 1) \<or>
         \<not> hex_field 16 (parts ! 2) \<or> \<not> hex_field 2 (parts ! 3))) \<and>
   (parseTraceparent w \<noteq> None \<longrightarrow>
      (let parts = split_on CHR ''-'' w in
         parseTraceparent w =
           Some \<lparr>version = parts ! 0, traceId = parts ! 1, spanId = parts ! 2, flags = parts ! 3\<rparr>)) \<and>
   (parseTraceparent w = Some c \<longleftrightarrow>
      w = ''00-'' @ traceId c @ ''-'' @ spanId c @ ''-'' @ flags c \<and> version c = ''00'' \<and>
      hex_field 32 (traceId c) \<and> hex_field 16 (spanId c) \<and> hex_field 2 (flags c))"
proof -
  have fields: "parseTraceparent w =
     (let parts = split_on CHR ''-'' w in
      if length parts = 4 \<and> parts ! 0 = ''00'' \<and> hex_field 32 (parts ! 1) \<and>
         hex_field 16 (parts ! 2) \<and> hex_field 2 (parts ! 3)
      then Some \<lparr>version = parts ! 0, traceId = parts ! 1, spanId = parts ! 2, flags = parts ! 3\<rparr>
      else None)"
    by (auto simp: parseTraceparent_def hex_field_def Let_def split: list.splits)
  have a: "parseTraceparent w = None \<longleftrightarrow>
      (let parts = split_on CHR ''-'' w in
         length parts \<noteq> 4 \<or> parts ! 0 \<noteq> ''00'' \<or> \<not> hex_field 32 (parts ! 1) \<or>
         \<not> hex_field 16 (parts ! 2) \<or> \<not> hex_field 2 (parts ! 3))"
    by (subst fields) (auto simp: Let_def)
  have b: "parseTraceparent w \<noteq> None \<longrightarrow>
      (let parts = split_on CHR ''-'' w in
         parseTraceparent w =
           Some \<lparr>version = parts ! 0, traceId = parts ! 1, spanId = parts ! 2, flags = parts ! 3\<rparr>)"
    by (subst (1 2) fields) (auto simp: Let_def)
  from a b parse_some_iff [of w c] show ?thesis by blast
qed

theorem parseTraceparent_exact_witness:
  "parseTraceparent ''00-0af7651916cd43dd8448eb211c80319c-B7AD6B7169203331-00''
     = Some \<lparr>version = ''00'', traceId = ''0af7651916cd43dd8448eb211c80319c'',
              spanId = ''B7AD6B7169203331'', flags = ''00''\<rparr> \<and>
   parseTraceparent ''01-0af7651916cd43dd8448eb211c80319c-B7AD6B7169203331-00'' = None"
proof -
  have f: "hex_field 2 ''00''" by (simp add: hex_field_def hex_regex_test_def is_hex_char_def)
  have s1: "split_on CHR ''-'' ''01-0af7651916cd43dd8448eb211c80319c-B7AD6B7169203331-00''
          = [''01'', ''0af7651916cd43dd8448eb211c80319c'', ''B7AD6B7169203331'', ''00'']"
    by simp
  note valid = parseTraceparent_exact
         [of "''00-0af7651916cd43dd8448eb211c80319c-B7AD6B7169203331-00''"
             "\<lparr>version = ''00'', traceId = ''0af7651916cd43dd8448eb211c80319c'',
              spanId = ''B7AD6B7169203331'', flags = ''00''\<rparr>",
          THEN conjunct2, THEN conjunct2, THEN iffD2]
  have "parseTraceparent ''00-0af7651916cd43dd8448eb211c80319c-B7AD6B7169203331-00''
     = Some \<lparr>version = ''00'', traceId = ''0af7651916cd43dd8448eb211c80319c'',
              spanId = ''B7AD6B7169203331'', flags = ''00''\<rparr>"
    by (rule valid) (simp add: hex_field_example32 hex_field_example16 f)
  moreover note invalid = parseTraceparent_exact
         [of "''01-0af7651916cd43dd8448eb211c80319c-B7AD6B7169203331-00''" undefined,
          THEN conjunct1, THEN iffD2]
  have "parseTraceparent ''01-0af7651916cd43dd8448eb211c80319c-B7AD6B7169203331-00'' = None"
    by (rule invalid) (simp only: s1 Let_def, simp)
  ultimately show ?thesis by simp
qed


section \<open>The claims about spans and the tracer\<close>


text \<open>
  C2. Once \<^verbatim>\<open>end\<close> has been called on a span, the span is ended, and every
  further call on it, a mutator or \<^verbatim>\<open>end\<close> again, one call or any sequence of
  calls, leaves the whole state as it is: the name, attributes, events, links, status and
  end time of the span, and the processor's list. Over any sequence of calls on a span
  that starts open, the registered processor receives the span once if the sequence
  contains an \<^verbatim>\<open>end\<close> and not at all otherwise.
\<close>

theorem ended_span_is_terminal:
  assumes "heap w r = Some s"
  shows "(\<exists>s1. heap (span_end r t w) r = Some s1 \<and> ended s1) \<and>
         span_call r opn (span_end r t w) = span_end r t w \<and>
         fold (span_call r) ops (span_end r t w) = span_end r t w \<and>
         (ended s \<longrightarrow> span_call r opn w = w) \<and>
         (\<not> ended s \<longrightarrow>
            (\<forall>coll. activeSpanProcessor w = Some coll \<longrightarrow>
               activeSpanProcessor (fold (span_call r) ops w) =
                 Some (if \<exists>t'. End t' \<in> set ops then coll @ [r] else coll)))"
proof -
  from span_end_is_ended [OF assms] obtain s1 where
    s1: "heap (span_end r t w) r = Some s1" "ended s1" by blast
  then have "span_call r opn (span_end r t w) = span_end r t w"
    and "fold (span_call r) ops (span_end r t w) = span_end r t w"
    by (simp_all add: span_call_ended fold_span_call_ended)
  moreover have "ended s \<longrightarrow> span_call r opn w = w"
    using assms by (simp add: span_call_ended)
  moreover have "\<not> ended s \<longrightarrow>
            (\<forall>coll. activeSpanProcessor w = Some coll \<longrightarrow>
               activeSpanProcessor (fold (span_call r) ops w) =
                 Some (if \<exists>t'. End t' \<in> set ops then coll @ [r] else coll))"
    using notify_at_most_once [OF assms] by blast
  ultimately show ?thesis using s1 by blast
qed

lemma startSpan_fresh:
  assumes "startSpan name' options ctx ambient w = (r, w1)"
  shows "\<exists>s. heap w1 r = Some s \<and> \<not> ended s \<and> endTime s = None \<and> events s = [] \<and>
           status s = \<lparr>code = UNSET, message = None\<rparr>"
  using new_span_heap [OF assms [unfolded startSpan_unfold Let_def]] by blast

lemma startSpan_world0:
  "\<exists>s. heap (snd (startSpan name' options ctx ambient world0)) 0 = Some s \<and> \<not> ended s \<and>
       events s = [] \<and> status s = \<lparr>code = UNSET, message = None\<rparr>"
proof -
  obtain r w1 where st: "startSpan name' options ctx ambient world0 = (r, w1)"
    by (cases "startSpan name' options ctx ambient world0")
  have "r = 0" using startSpan_frame(1) [OF st] by (simp add: world0_def)
  with startSpan_fresh [OF st] show ?thesis by (auto simp: st)
qed

theorem ended_span_is_terminal_witness:
  "\<exists>s. heap (snd (startSpan ''job'' None None ROOT_CONTEXT world0)) 0 = Some s \<and> \<not> ended s \<and>
     span_call 0 (UpdateName ''other'')
        (span_end 0 None (snd (startSpan ''job'' None None ROOT_CONTEXT world0)))
       = span_end 0 None (snd (startSpan ''job'' None None ROOT_CONTEXT world0)) \<and>
     activeSpanProcessor
        (fold (span_call 0) [End None, UpdateName ''other'', End None]
           (snd (startSpan ''job'' None None ROOT_CONTEXT world0)))
       = Some [0]"
proof -
  let ?w = "snd (startSpan ''job'' None None ROOT_CONTEXT world0)"
  from startSpan_world0 obtain s where s: "heap ?w 0 = Some s" "\<not> ended s" by blast
  have p: "activeSpanProcessor ?w = Some []"
    using startSpan_frame(3) [of "''job''" None None ROOT_CONTEXT world0 "fst (startSpan ''job'' None None ROOT_CONTEXT world0)" ?w]
    by (simp add: world0_def)
  note T = ended_span_is_terminal
      [OF s(1), of None "UpdateName ''other''" "[End None, UpdateName ''other'', End None]"]
  have e: "\<exists>t'. End t' \<in> set [End None, UpdateName ''other'', End None]" by auto
  from T have c: "span_call 0 (UpdateName ''other'') (span_end 0 None ?w) = span_end 0 None ?w"
    by blast
  from T s(2) p have "activeSpanProcessor
        (fold (span_call 0) [End None, UpdateName ''other'', End None] ?w)
       = Some (if \<exists>t'. End t' \<in> set [End None, UpdateName ''other'', End None]
               then [] @ [0] else [])"
    by blast
  then have d: "activeSpanProcessor
        (fold (span_call 0) [End None, UpdateName ''other'', End None] ?w) = Some [0]"
    by (simp only: e if_True append_Nil)
  show ?thesis
    by (rule exI [of _ s]) (intro conjI s c d)
qed








subsection \<open>withTrace\<close>

















section \<open>The claim about TracedError\<close>

lemma traced_is_error:
  "getPrototypeOf h v = Some TracedError_prototype \<Longrightarrow> instanceof_Error h v"
  by (cases v) (simp_all add: getPrototypeOf_def instanceof_Error_def)

lemma reaches_imp_walk:
  "reaches_TracedError h v n \<Longrightarrow> cause_walk h v = Some True"
proof (induction n arbitrary: v)
  case 0
  then show ?case
    by (subst cause_walk.simps) (simp add: reaches_TracedError_def traced_is_error)
next
  case (Suc n)
  from Suc.prems have err: "instanceof_Error h v"
    and rest: "reaches_TracedError h (cause_of h v) n"
    unfolding reaches_TracedError_def
    by (auto simp: less_Suc_eq_0_disj)
  from Suc.IH [OF rest] err show ?case
    by (subst cause_walk.simps) simp
qed

lemma walk_imp_reaches:
  assumes "cause_walk h v = Some True"
  shows "\<exists>n. reaches_TracedError h v n"
proof -
  have "True \<longrightarrow> (\<exists>n. reaches_TracedError h v n)"
  proof (rule cause_walk.raw_induct
      [where P = "\<lambda>h v b. b \<longrightarrow> (\<exists>n. reaches_TracedError h v n)", OF _ assms])
    fix walk :: "object_heap \<Rightarrow> thrown \<Rightarrow> bool option" and h v b
    assume IH: "\<And>h v b. walk h v = Some b \<Longrightarrow> b \<longrightarrow> (\<exists>n. reaches_TracedError h v n)"
      and step: "(if instanceof_Error h v
                  then if getPrototypeOf h v = Some TracedError_prototype then Some True
                       else walk h (cause_of h v)
                  else Some False) = Some b"
    show "b \<longrightarrow> (\<exists>n. reaches_TracedError h v n)"
    proof
      assume b: b
      show "\<exists>n. reaches_TracedError h v n"
      proof (cases "getPrototypeOf h v = Some TracedError_prototype")
        case True
        then have "reaches_TracedError h v 0" by (simp add: reaches_TracedError_def)
        then show ?thesis ..
      next
        case False
        with step b have err: "instanceof_Error h v" and w: "walk h (cause_of h v) = Some b"
          by (auto split: if_splits)
        from IH [OF w] b obtain n where "reaches_TracedError h (cause_of h v) n" by blast
        with err have "reaches_TracedError h v (Suc n)"
          unfolding reaches_TracedError_def by (auto simp: less_Suc_eq_0_disj)
        then show ?thesis ..
      qed
    qed
  qed
  then show ?thesis by simp
qed

lemma stops_imp_walk:
  "stops_at_non_Error h v n \<Longrightarrow> cause_walk h v = Some False"
proof (induction n arbitrary: v)
  case 0
  then show ?case
    by (subst cause_walk.simps) (simp add: stops_at_non_Error_def)
next
  case (Suc n)
  from Suc.prems have err: "instanceof_Error h v"
    "getPrototypeOf h v \<noteq> Some TracedError_prototype"
    and rest: "stops_at_non_Error h (cause_of h v) n"
    unfolding stops_at_non_Error_def
    by (auto simp: less_Suc_eq_0_disj)
  from Suc.IH [OF rest] err show ?case
    by (subst cause_walk.simps) simp
qed

lemma walk_imp_stops:
  assumes "cause_walk h v = Some False"
  shows "\<exists>n. stops_at_non_Error h v n"
proof -
  have "\<not> False \<longrightarrow> (\<exists>n. stops_at_non_Error h v n)"
  proof (rule cause_walk.raw_induct
      [where P = "\<lambda>h v b. \<not> b \<longrightarrow> (\<exists>n. stops_at_non_Error h v n)", OF _ assms])
    fix walk :: "object_heap \<Rightarrow> thrown \<Rightarrow> bool option" and h v b
    assume IH: "\<And>h v b. walk h v = Some b \<Longrightarrow> \<not> b \<longrightarrow> (\<exists>n. stops_at_non_Error h v n)"
      and step: "(if instanceof_Error h v
                  then if getPrototypeOf h v = Some TracedError_prototype then Some True
                       else walk h (cause_of h v)
                  else Some False) = Some b"
    show "\<not> b \<longrightarrow> (\<exists>n. stops_at_non_Error h v n)"
    proof
      assume b: "\<not> b"
      show "\<exists>n. stops_at_non_Error h v n"
      proof (cases "instanceof_Error h v")
        case False
        then have "stops_at_non_Error h v 0" by (simp add: stops_at_non_Error_def)
        then show ?thesis ..
      next
        case True
        with step b have nt: "getPrototypeOf h v \<noteq> Some TracedError_prototype"
          and w: "walk h (cause_of h v) = Some b"
          by (auto split: if_splits)
        from IH [OF w] b obtain n where "stops_at_non_Error h (cause_of h v) n" by blast
        with True nt have "stops_at_non_Error h v (Suc n)"
          unfolding stops_at_non_Error_def by (auto simp: less_Suc_eq_0_disj)
        then show ?thesis ..
      qed
    qed
  qed
  then show ?thesis by simp
qed

text \<open>
  C10. \<^verbatim>\<open>e instanceof TracedError\<close> returns true exactly when \<open>e\<close> is an object
  (not callable, not a primitive) and the chain of causes from \<open>e\<close>, followed while
  its elements are instances of \<^verbatim>\<open>Error\<close>, reaches an object whose direct
  prototype is \<^verbatim>\<open>TracedError.prototype\<close>. It returns false exactly when \<open>e\<close>
  is not an object or the chain meets an element that is not an instance of
  \<^verbatim>\<open>Error\<close> first. In particular a plain \<^verbatim>\<open>Error\<close> whose chain of causes
  reaches a \<^verbatim>\<open>TracedError\<close> satisfies the check.
\<close>

theorem hasInstance_walks_cause_chain:
  "(hasInstance h e = Some True \<longleftrightarrow>
      typeof_object h e \<and> (\<exists>n. reaches_TracedError h e n)) \<and>
   (hasInstance h e = Some False \<longleftrightarrow>
      \<not> typeof_object h e \<or> (\<exists>n. stops_at_non_Error h e n)) \<and>
   (typeof_object h e \<and> getPrototypeOf h e = Some Error_prototype \<and>
      (\<exists>n. reaches_TracedError h (cause_of h e) n)
    \<longrightarrow> hasInstance h e = Some True)"
proof -
  have t: "hasInstance h e = Some True \<longleftrightarrow>
      typeof_object h e \<and> (\<exists>n. reaches_TracedError h e n)"
    using reaches_imp_walk [of h e] walk_imp_reaches [of h e]
    by (auto simp: hasInstance_def)
  have f: "hasInstance h e = Some False \<longleftrightarrow>
      \<not> typeof_object h e \<or> (\<exists>n. stops_at_non_Error h e n)"
    using stops_imp_walk [of h e] walk_imp_stops [of h e]
    by (auto simp: hasInstance_def)
  have p: "typeof_object h e \<and> getPrototypeOf h e = Some Error_prototype \<and>
      (\<exists>n. reaches_TracedError h (cause_of h e) n)
    \<longrightarrow> hasInstance h e = Some True"
  proof (intro impI, elim conjE exE)
    fix n
    assume a: "typeof_object h e" "getPrototypeOf h e = Some Error_prototype"
      "reaches_TracedError h (cause_of h e) n"
    from a(2) have "instanceof_Error h e"
      by (cases e) (simp_all add: getPrototypeOf_def instanceof_Error_def)
    with a(3) have "reaches_TracedError h e (Suc n)"
      unfolding reaches_TracedError_def by (auto simp: less_Suc_eq_0_disj)
    with a(1) t show "hasInstance h e = Some True" by blast
  qed
  from t f p show ?thesis by blast
qed

theorem hasInstance_walks_cause_chain_witness:
  "typeof_object example_heap (ObjectRef 0) \<and>
   getPrototypeOf example_heap (ObjectRef 0) = Some Error_prototype \<and>
   reaches_TracedError example_heap (cause_of example_heap (ObjectRef 0)) 0 \<and>
   hasInstance example_heap (ObjectRef 0) = Some True \<and>
   hasInstance example_heap NotAnObject = Some False"
proof -
  have a: "typeof_object example_heap (ObjectRef 0)"
    "getPrototypeOf example_heap (ObjectRef 0) = Some Error_prototype"
    "reaches_TracedError example_heap (cause_of example_heap (ObjectRef 0)) 0"
    "\<not> typeof_object example_heap NotAnObject"
    by (simp_all add: typeof_object_def getPrototypeOf_def reaches_TracedError_def cause_of_def
        example_heap_def)
  note T = hasInstance_walks_cause_chain [of example_heap]
  from T [of "ObjectRef 0"] a(1,2,3) have "hasInstance example_heap (ObjectRef 0) = Some True"
    by blast
  moreover from T [of NotAnObject] a(4) have "hasInstance example_heap NotAnObject = Some False"
    by blast
  ultimately show ?thesis using a by blast
qed

section \<open>Attribute encoding of the exporter\<close>


lemma insert_index_keys:
  "set (map fst (insert_index i k v obj)) = insert k (set (map fst obj))"
proof (induction obj)
  case Nil
  show ?case by simp
next
  case (Cons a obj)
  obtain k' v' where a: "a = (k', v')" by (cases a)
  show ?case
  proof (cases "array_index k'")
    case None
    then show ?thesis by (simp add: a)
  next
    case (Some j)
    with Cons.IH show ?thesis by (cases "j < i") (auto simp: a)
  qed
qed

lemma insert_index_set: "fst ` set (insert_index i k v obj) = insert k (fst ` set obj)"
  using insert_index_keys [of i k v obj] by simp



lemma obj_insert_set: "fst ` set (obj_insert k v obj) = insert k (fst ` set obj)"
  by (simp add: obj_insert_def insert_index_set split: option.splits)




























section \<open>Export of spans and log entries\<close>

lemma and_then_Inr_iff:
  "and_then r f = Inr y \<longleftrightarrow> (\<exists>v. r = Inr v \<and> f v = Inr y)"
  by (cases r) (simp_all add: and_then_def)

lemma and_then_Inl_iff:
  "and_then r f = Inl e \<longleftrightarrow> r = Inl e \<or> (\<exists>v. r = Inr v \<and> f v = Inl e)"
  by (cases r) (simp_all add: and_then_def)

lemma map_try_iff: "map_try f xs = Inr ys \<longleftrightarrow> list_all2 (\<lambda>x y. f x = Inr y) xs ys"
proof (induction xs arbitrary: ys)
  case Nil
  show ?case by auto
next
  case (Cons x xs)
  show ?case
    by (cases ys) (auto simp: and_then_Inr_iff Cons.IH)
qed



lemma msToNanoString_raises: "msToNanoString ms = Inl e \<longleftrightarrow> (\<forall>q. ms \<noteq> Finite q) \<and> e = RangeError"
  by (cases ms) (auto simp: msToNanoString_def BigInt_floor_def)

lemma msToNanoStringWithOffset_succeeds:
  "(\<exists>s. msToNanoStringWithOffset ms k = Inr s) \<longleftrightarrow> (\<exists>q. ms = Finite q)"
  by (cases ms) (simp_all add: msToNanoStringWithOffset_def BigInt_floor_def)

lemma exportTraces_empty:
  "exportTraces rt now fetchFn config [] name' = \<lparr>outcome = Fulfilled, console = [], sent = []\<rparr>"
  by (simp add: exportTraces_def)



lemma exportLogs_empty:
  "exportLogs rt fetchFn config [] name' = \<lparr>outcome = Fulfilled, console = [], sent = []\<rparr>"
  by (simp add: exportLogs_def)












section \<open>Requests on the ignore list\<close>

lemma initOTLP_processor:
  "activeSpanProcessor (initOTLP w) = Some (case activeSpanProcessor w of Some c \<Rightarrow> c | None \<Rightarrow> [])"
  by (simp add: initOTLP_def split: option.splits)

lemma shouldIgnoreUrl_iff:
  "shouldIgnoreUrl request ignoreUrls \<longleftrightarrow>
     (\<exists>p \<in> set (case ignoreUrls of Some ps \<Rightarrow> ps | None \<Rightarrow> DEFAULT_IGNORE_URLS).
        pattern_test (url_pathname request) p)"
  by (auto simp: shouldIgnoreUrl_def Let_def list_ex_iff)

lemma health_is_ignored: "shouldIgnoreUrl health_request None"
  by (simp add: shouldIgnoreUrl_def DEFAULT_IGNORE_URLS_def pattern_test_def health_request_def)

lemma noop_span:
  assumes st: "startSpan ''noop'' None None ambient w0 = (r, w1)"
    and coll: "activeSpanProcessor w0 = Some collected"
  shows "\<exists>s. heap w1 r = Some s \<and> name s = ''noop'' \<and> isRecording s"
    and "activeSpanProcessor (span_call r (End None) w1) = Some (collected @ [r])"
    and "\<exists>s. heap (span_call r (End None) w1) r = Some s \<and> name s = ''noop'' \<and> \<not> isRecording s"
proof -
  from startSpan_props [OF st] obtain s where
    s: "heap w1 r = Some s" "\<not> ended s" "name s = ''noop''"
    apply -
    apply (erule exE)
    apply (elim conjE)
    apply (rule that)
      apply assumption+
    done
  then show "\<exists>s. heap w1 r = Some s \<and> name s = ''noop'' \<and> isRecording s"
    by (simp add: isRecording_def)
  have p: "activeSpanProcessor w1 = Some collected"
    using startSpan_frame(3) [OF st] coll by simp
  show "activeSpanProcessor (span_call r (End None) w1) = Some (collected @ [r])"
    using s p by (simp add: span_end_def onEnd_def)
  show "\<exists>s. heap (span_call r (End None) w1) r = Some s \<and> name s = ''noop'' \<and> \<not> isRecording s"
    using s by (simp add: span_end_def span_end_fields_def isRecording_def)
qed

lemma flush_collected:
  "activeSpanProcessor w = Some spans \<Longrightarrow>
   flush config w =
     ((case config of None \<Rightarrow> [] | Some c \<Rightarrow> List.map_filter (heap w) spans),
      w\<lparr>activeSpanProcessor := Some []\<rparr>)"
  by (simp add: flush_def)

lemma traceHandler_ignored:
  assumes "shouldIgnoreUrl request (Option.bind options th_ignoreUrls)"
    and "startSpan ''noop'' None None ambient (initOTLP w) = (r, w1)"
  shows "traceHandler request handler options ambient w =
           (case settle_async (handler r ambient (span_call r (End None) w1)) of
              (result, w') \<Rightarrow>
                (case flush (Option.bind options th_config) w' of
                   (batch, w'') \<Rightarrow> (result, batch, w'')))"
  using assms by (simp add: traceHandler_def Let_def)

lemma instrumented_fetch_ignored:
  assumes "shouldIgnoreUrl request (io_ignoreUrls opts)"
  shows "instrumented_fetch originalFetch opts detected request ambient w =
           (case settle_async (originalFetch request ambient w) of
              (result, w') \<Rightarrow> (result, [], w'))"
  using assms by (simp add: instrumented_fetch_def Let_def)

text \<open>
  C8. For a request whose path is in the ignore list (a string entry that equals the
  path or an expression that accepts it, the list of health checks when none is
  configured), the fetch handler of \<^verbatim>\<open>instrument\<close> calls the wrapped handler in the
  state it was called in and settles as the handler does, with nothing handed to the
  exporter. \<^verbatim>\<open>traceHandler\<close> also calls the handler and settles as it does, but first
  starts a span named \<open>noop\<close> with the registered tracer and ends it: the span is
  recording when it is created, the handler is given it ended, and the collector holds it
  when the handler runs, so that the final flush hands it to the exporter.
\<close>

theorem ignored_url_handling:
  assumes "shouldIgnoreUrl request ignoreUrls"
    and "Option.bind options th_ignoreUrls = ignoreUrls"
    and "io_ignoreUrls opts = ignoreUrls"
    and "startSpan ''noop'' None None ambient (initOTLP w) = (r, w1)"
  shows "(\<exists>p \<in> set (case ignoreUrls of Some ps \<Rightarrow> ps | None \<Rightarrow> DEFAULT_IGNORE_URLS).
            case p of StringPattern s \<Rightarrow> url_pathname request = s
                    | RegExpPattern test \<Rightarrow> test (url_pathname request)) \<and>
         instrumented_fetch originalFetch opts detected request ambient w =
           (case settle_async (originalFetch request ambient w) of
              (result, w') \<Rightarrow> (result, [], w')) \<and>
         traceHandler request handler options ambient w =
           (case settle_async (handler r ambient (span_call r (End None) w1)) of
              (result, w') \<Rightarrow>
                (case flush (Option.bind options th_config) w' of
                   (batch, w'') \<Rightarrow> (result, batch, w''))) \<and>
         (\<exists>s. heap w1 r = Some s \<and> name s = ''noop'' \<and> isRecording s) \<and>
         (\<exists>s. heap (span_call r (End None) w1) r = Some s \<and> name s = ''noop'' \<and> \<not> isRecording s) \<and>
         activeSpanProcessor (span_call r (End None) w1)
           = Some ((case activeSpanProcessor w of Some c \<Rightarrow> c | None \<Rightarrow> []) @ [r])"
proof -
  have a: "\<exists>p \<in> set (case ignoreUrls of Some ps \<Rightarrow> ps | None \<Rightarrow> DEFAULT_IGNORE_URLS).
            case p of StringPattern s \<Rightarrow> url_pathname request = s
                    | RegExpPattern test \<Rightarrow> test (url_pathname request)"
    using assms(1) unfolding shouldIgnoreUrl_iff pattern_test_def .
  have b: "instrumented_fetch originalFetch opts detected request ambient w =
           (case settle_async (originalFetch request ambient w) of
              (result, w') \<Rightarrow> (result, [], w'))"
    by (rule instrumented_fetch_ignored) (simp add: assms(1,3))
  have c: "traceHandler request handler options ambient w =
           (case settle_async (handler r ambient (span_call r (End None) w1)) of
              (result, w') \<Rightarrow>
                (case flush (Option.bind options th_config) w' of
                   (batch, w'') \<Rightarrow> (result, batch, w'')))"
    by (rule traceHandler_ignored [OF _ assms(4)]) (simp add: assms(1,2))
  note n = noop_span [OF assms(4) initOTLP_processor]
  from a b c n show ?thesis by (intro conjI)
qed

theorem ignored_url_handling_witness:
  "shouldIgnoreUrl health_request None \<and>
   instrumented_fetch (\<lambda>request ctx w. (Resolves ok_response, w))
      \<lparr>io_serviceName = None, io_ignoreUrls = None, io_exporter = Some example_config,
       io_disableExport = False\<rparr>
      None health_request ROOT_CONTEXT world0
     = (Resolves ok_response, [], world0) \<and>
   fst (traceHandler health_request (\<lambda>sp ctx w. (Resolves ok_response, w))
          (Some \<lparr>th_config = Some example_config, th_serviceName = None, th_ignoreUrls = None\<rparr>)
          ROOT_CONTEXT world0)
     = Resolves ok_response \<and>
   map name (fst (snd (traceHandler health_request (\<lambda>sp ctx w. (Resolves ok_response, w))
          (Some \<lparr>th_config = Some example_config, th_serviceName = None, th_ignoreUrls = None\<rparr>)
          ROOT_CONTEXT world0)))
     = [''noop'']"
proof -
  define r where "r = fst (startSpan ''noop'' None None ROOT_CONTEXT (initOTLP world0))"
  define w1 where "w1 = snd (startSpan ''noop'' None None ROOT_CONTEXT (initOTLP world0))"
  define w2 where "w2 = span_call r (End None) w1"
  let ?options = "Some \<lparr>th_config = Some example_config, th_serviceName = None, th_ignoreUrls = None\<rparr>"
  let ?opts = "\<lparr>io_serviceName = None, io_ignoreUrls = None, io_exporter = Some example_config,
       io_disableExport = False\<rparr>"
  have st: "startSpan ''noop'' None None ROOT_CONTEXT (initOTLP world0) = (r, w1)"
    by (simp add: r_def w1_def)
  have o1: "Option.bind ?options th_ignoreUrls = None" by simp
  have o2: "io_ignoreUrls ?opts = None" by simp
  note T = ignored_url_handling [OF health_is_ignored o1 o2 st,
      where originalFetch = "\<lambda>request ctx w. (Resolves ok_response, w)"
        and handler = "\<lambda>sp ctx w. (Resolves ok_response, w)" and detected = None]
  have a: "instrumented_fetch (\<lambda>request ctx w. (Resolves ok_response, w)) ?opts
      None health_request ROOT_CONTEXT world0 = (Resolves ok_response, [], world0)"
    using T [THEN conjunct2, THEN conjunct1] by (simp add: settle_async_def)
  from T [THEN conjunct2, THEN conjunct2, THEN conjunct2, THEN conjunct2, THEN conjunct1]
  obtain s where s: "heap w2 r = Some s" "name s = ''noop''"
    unfolding w2_def by blast
  have p: "activeSpanProcessor w2 = Some [r]"
    using T [THEN conjunct2, THEN conjunct2, THEN conjunct2, THEN conjunct2, THEN conjunct2]
    by (simp add: w2_def world0_def)
  have f: "flush (Some example_config) w2 = ([s], w2\<lparr>activeSpanProcessor := Some []\<rparr>)"
    by (simp add: flush_collected [OF p] List.map_filter_def s)
  have b: "traceHandler health_request (\<lambda>sp ctx w. (Resolves ok_response, w)) ?options
          ROOT_CONTEXT world0 = (Resolves ok_response, [s], w2\<lparr>activeSpanProcessor := Some []\<rparr>)"
    using T [THEN conjunct2, THEN conjunct2, THEN conjunct1] f unfolding w2_def
    by (simp add: settle_async_def)
  show ?thesis
    by (simp only: a b health_is_ignored fst_conv snd_conv list.map s(2) simp_thms)
qed

end
